theory Spec2Isabelle
  imports Complex_Main "HOL-Library.Multiset" "HOL-Library.Sublist"
begin

section \<open>Strings\<close>

text \<open>
  A JavaScript string is the list of its UTF-16 code units, and a code unit is a natural
  number; \<open>length\<close> is the \<open>length\<close> property. \<open>str\<close> turns an ASCII literal into
  such a string.
\<close>

type_synonym jstring = "nat list"

definition str :: "string \<Rightarrow> jstring" where
  "str s = map of_char s"

text \<open>
  The white space of \<open>String.prototype.trim\<close> and of the class \<open>\s\<close> of a regular
  expression (ECMAScript \<open>WhiteSpace\<close> and \<open>LineTerminator\<close>): U+0009 to U+000D, U+0020,
  U+00A0, U+1680, U+2000 to U+200A, U+2028, U+2029, U+202F, U+205F, U+3000 and U+FEFF.
\<close>

definition isWhiteSpace :: "nat \<Rightarrow> bool" where
  "isWhiteSpace c =
     ((9 \<le> c \<and> c \<le> 13) \<or> c = 32 \<or> c = 160 \<or> c = 5760 \<or> (8192 \<le> c \<and> c \<le> 8202)
      \<or> c = 8232 \<or> c = 8233 \<or> c = 8239 \<or> c = 8287 \<or> c = 12288 \<or> c = 65279)"

definition trim :: "jstring \<Rightarrow> jstring" where
  "trim s = rev (dropWhile isWhiteSpace (rev (dropWhile isWhiteSpace s)))"

text \<open>\<open>s.replace(/\s+/g, ' ')\<close>: every maximal run of white space becomes one space. The
  flag says that the previous code unit belonged to a run already replaced.\<close>

fun collapseRuns :: "bool \<Rightarrow> jstring \<Rightarrow> jstring" where
  "collapseRuns inRun [] = []"
| "collapseRuns inRun (c # cs) =
     (if isWhiteSpace c then (if inRun then collapseRuns True cs else 32 # collapseRuns True cs)
      else c # collapseRuns False cs)"

text \<open>
  \<open>String.prototype.toLowerCase\<close> is the case conversion of the JavaScript engine (the
  Unicode default case conversion). It is a parameter of every function that calls it.
  \<open>asciiLower\<close> is used to evaluate the model on concrete inputs: the engine's function
  returns the same string whenever all code units of its argument are below 128.
\<close>

type_synonym lower_case = "jstring \<Rightarrow> jstring"

definition asciiLower :: lower_case where
  "asciiLower s = map (\<lambda>c. if 65 \<le> c \<and> c \<le> 90 then c + 32 else c) s"

text \<open>\<open>areTextsEqual\<close>: \<open>normalize = text.trim().replace(/\s+/g, ' ').toLowerCase()\<close>.\<close>

definition normalize :: "lower_case \<Rightarrow> jstring \<Rightarrow> jstring" where
  "normalize toLowerCase t = toLowerCase (collapseRuns False (trim t))"

definition areTextsEqual :: "lower_case \<Rightarrow> jstring \<Rightarrow> jstring \<Rightarrow> bool" where
  "areTextsEqual toLowerCase text1 text2 = (normalize toLowerCase text1 = normalize toLowerCase text2)"

section \<open>The two diff libraries\<close>

text \<open>
  The packages \<open>diff\<close> (\<open>diffChars\<close>, \<open>diffArrays\<close>) and \<open>diff-match-patch\<close>
  (\<open>diff_main\<close>, \<open>diff_cleanupSemantic\<close>) are not part of the repository. Every function
  that calls one of them takes it as a parameter, and a theorem that depends on what the
  library returns states the property of its result as a hypothesis.

  A \<open>diff-match-patch\<close> result is a list of pairs \<open>[operation, text]\<close> with operation
  \<open>-1\<close>, \<open>0\<close> or \<open>1\<close>.
\<close>

datatype operation = DIFF_DELETE | DIFF_EQUAL | DIFF_INSERT

type_synonym diff = "operation \<times> jstring"

type_synonym diff_main = "jstring \<Rightarrow> jstring \<Rightarrow> diff list"

text \<open>A \<open>diff\<close> package change object: \<open>{ value, added, removed }\<close>.\<close>

record change =
  cvalue :: jstring
  added :: bool
  removed :: bool

type_synonym diffChars = "jstring \<Rightarrow> jstring \<Rightarrow> change list"

text \<open>What the libraries promise of a result for the inputs \<open>a\<close> and \<open>b\<close>: the parts that
  are not insertions spell \<open>a\<close>, the parts that are not deletions spell \<open>b\<close>.\<close>

definition diffs_reconstruct :: "diff list \<Rightarrow> jstring \<Rightarrow> jstring \<Rightarrow> bool" where
  "diffs_reconstruct ds a b =
     (concat (map snd (filter (\<lambda>d. fst d \<noteq> DIFF_INSERT) ds)) = a \<and>
      concat (map snd (filter (\<lambda>d. fst d \<noteq> DIFF_DELETE) ds)) = b)"

definition changes_reconstruct :: "change list \<Rightarrow> jstring \<Rightarrow> jstring \<Rightarrow> bool" where
  "changes_reconstruct cs a b =
     (list_all (\<lambda>c. \<not> (added c \<and> removed c)) cs \<and>
      concat (map cvalue (filter (\<lambda>c. \<not> added c) cs)) = a \<and>
      concat (map cvalue (filter (\<lambda>c. \<not> removed c) cs)) = b)"

text \<open>
  A small differ used to evaluate the model on concrete inputs: the common prefix and the
  common suffix are kept, what lies between is deleted and inserted. \<open>diff_main\<close> of
  \<open>diff-match-patch\<close> returns exactly this list whenever the two remainders between prefix
  and suffix have no code unit in common (it strips prefix and suffix first, and its
  bisection finds nothing to keep in such remainders).
\<close>

fun commonPrefix :: "jstring \<Rightarrow> jstring \<Rightarrow> jstring" where
  "commonPrefix (x # xs) (y # ys) = (if x = y then x # commonPrefix xs ys else [])"
| "commonPrefix _ _ = []"

definition commonSuffix :: "jstring \<Rightarrow> jstring \<Rightarrow> jstring" where
  "commonSuffix a b = rev (commonPrefix (rev a) (rev b))"

definition nonEmptyDiff :: "operation \<Rightarrow> jstring \<Rightarrow> diff list" where
  "nonEmptyDiff op s = (if s = [] then [] else [(op, s)])"

definition trimDiff :: diff_main where
  "trimDiff text1 text2 =
     (if text1 = text2 then nonEmptyDiff DIFF_EQUAL text1
      else
        let p = commonPrefix text1 text2;
            r1 = drop (length p) text1;
            r2 = drop (length p) text2;
            s = commonSuffix r1 r2;
            m1 = take (length r1 - length s) r1;
            m2 = take (length r2 - length s) r2
        in nonEmptyDiff DIFF_EQUAL p @ nonEmptyDiff DIFF_DELETE m1
           @ nonEmptyDiff DIFF_INSERT m2 @ nonEmptyDiff DIFF_EQUAL s)"

definition trimDiffChars :: diffChars where
  "trimDiffChars a b =
     map (\<lambda>d. \<lparr>cvalue = snd d, added = (fst d = DIFF_INSERT), removed = (fst d = DIFF_DELETE)\<rparr>)
       (trimDiff a b)"

section \<open>compareDocuments\<close>

datatype piece_type = TypeEqual | TypeInsert | TypeDelete

record piece =
  ptype :: piece_type
  content :: jstring

record summary =
  additions :: nat
  deletions :: nat
  changes :: nat

record text_comparison =
  leftDiffs :: "piece list"
  rightDiffs :: "piece list"
  summary :: summary

definition zeroSummary :: summary where
  "zeroSummary = \<lparr>additions = 0, deletions = 0, changes = 0\<rparr>"

text \<open>The body of \<open>diffs.forEach\<close> in \<open>compareDocuments\<close>.\<close>

definition compareDocumentsStep :: "text_comparison \<Rightarrow> change \<Rightarrow> text_comparison" where
  "compareDocumentsStep acc d =
     (if added d then
        acc\<lparr>rightDiffs := rightDiffs acc @ [\<lparr>ptype = TypeInsert, content = cvalue d\<rparr>],
            summary := (summary acc)\<lparr>additions := additions (summary acc) + 1\<rparr>\<rparr>
      else if removed d then
        acc\<lparr>leftDiffs := leftDiffs acc @ [\<lparr>ptype = TypeDelete, content = cvalue d\<rparr>],
            summary := (summary acc)\<lparr>deletions := deletions (summary acc) + 1\<rparr>\<rparr>
      else
        acc\<lparr>leftDiffs := leftDiffs acc @ [\<lparr>ptype = TypeEqual, content = cvalue d\<rparr>],
            rightDiffs := rightDiffs acc @ [\<lparr>ptype = TypeEqual, content = cvalue d\<rparr>]\<rparr>)"

definition compareDocuments :: "diffChars \<Rightarrow> jstring \<Rightarrow> jstring \<Rightarrow> text_comparison" where
  "compareDocuments diffChars leftText rightText =
     (let ds = diffChars leftText rightText;
          acc = foldl compareDocumentsStep
                  \<lparr>leftDiffs = [], rightDiffs = [], summary = zeroSummary\<rparr> ds
      in acc\<lparr>summary := (summary acc)\<lparr>changes := additions (summary acc) + deletions (summary acc)\<rparr>\<rparr>)"

section \<open>Text similarity\<close>

text \<open>
  \<open>getTextSimilarity\<close>. The quotient of two string lengths is a JavaScript double; the
  model keeps the exact rational. \<open>alignBlocks\<close> compares it with \<open>0.6\<close> only, and for
  lengths below \<open>2^49\<close> the rounded quotient is above the double \<open>0.6\<close> exactly when the
  exact quotient is above \<open>6/10\<close>.
\<close>

definition unchangedLength :: "diff list \<Rightarrow> nat" where
  "unchangedLength ds =
     foldl (\<lambda>n d. if fst d = DIFF_EQUAL then n + length (snd d) else n) 0 ds"

definition getTextSimilarity :: "diff_main \<Rightarrow> jstring \<Rightarrow> jstring \<Rightarrow> rat" where
  "getTextSimilarity diff_main text1 text2 =
     (if text1 = [] \<and> text2 = [] then 1
      else if text1 = [] \<or> text2 = [] then 0
      else
        let ds = diff_main text1 text2;
            totalLength = max (length text1) (length text2)
        in if totalLength > 0 then of_nat (unchangedLength ds) / of_nat totalLength else 0)"

section \<open>alignBlocks\<close>

text \<open>A block of \<open>extractBlocks\<close>: its trimmed text, its tag name in lower case and its
  position in the \<open>querySelectorAll\<close> result. The DOM element itself and the generated
  \<open>id\<close>, which \<open>alignBlocks\<close> never reads, are left out.\<close>

record block =
  btext :: jstring
  tagName :: jstring
  index :: nat

datatype entry_type = Equal | Modified | Added | Removed

record entry =
  left :: "block option"
  right :: "block option"
  etype :: entry_type

record align_state =
  alignment :: "entry list"
  leftUsed :: "nat set"
  rightUsed :: "nat set"

text \<open>\<open>Array.prototype.findIndex\<close> with a callback that reads the element and its index;
  \<open>None\<close> stands for \<open>-1\<close>.\<close>

fun findIndexFrom :: "nat \<Rightarrow> ('a \<Rightarrow> nat \<Rightarrow> bool) \<Rightarrow> 'a list \<Rightarrow> nat option" where
  "findIndexFrom i P [] = None"
| "findIndexFrom i P (x # xs) = (if P x i then Some i else findIndexFrom (Suc i) P xs)"

definition findIndex :: "('a \<Rightarrow> nat \<Rightarrow> bool) \<Rightarrow> 'a list \<Rightarrow> nat option" where
  "findIndex P xs = findIndexFrom 0 P xs"

definition matched :: "align_state \<Rightarrow> nat \<Rightarrow> block \<Rightarrow> nat \<Rightarrow> block \<Rightarrow> entry_type \<Rightarrow> align_state" where
  "matched st leftIndex leftBlock rightIndex rightBlock t =
     \<lparr>alignment = alignment st @ [\<lparr>left = Some leftBlock, right = Some rightBlock, etype = t\<rparr>],
      leftUsed = insert leftIndex (leftUsed st),
      rightUsed = insert rightIndex (rightUsed st)\<rparr>"

text \<open>First pass: exact matches.\<close>

definition exactCandidate ::
  "lower_case \<Rightarrow> align_state \<Rightarrow> block \<Rightarrow> block \<Rightarrow> nat \<Rightarrow> bool" where
  "exactCandidate toLowerCase st leftBlock rightBlock idx =
     (idx \<notin> rightUsed st \<and> tagName leftBlock = tagName rightBlock \<and>
      areTextsEqual toLowerCase (btext leftBlock) (btext rightBlock))"

definition exactStep ::
  "lower_case \<Rightarrow> block list \<Rightarrow> align_state \<Rightarrow> nat \<times> block \<Rightarrow> align_state" where
  "exactStep toLowerCase rightBlocks st p =
     (case p of (leftIndex, leftBlock) \<Rightarrow>
        (case findIndex (exactCandidate toLowerCase st leftBlock) rightBlocks of
           None \<Rightarrow> st
         | Some rightIndex \<Rightarrow>
             matched st leftIndex leftBlock rightIndex (rightBlocks ! rightIndex) Equal))"

text \<open>Second pass: similar content matches.\<close>

definition similarCandidate :: "diff_main \<Rightarrow> align_state \<Rightarrow> block \<Rightarrow> block \<Rightarrow> nat \<Rightarrow> bool" where
  "similarCandidate diff_main st leftBlock rightBlock idx =
     (idx \<notin> rightUsed st \<and> tagName leftBlock = tagName rightBlock \<and>
      getTextSimilarity diff_main (btext leftBlock) (btext rightBlock) > 6 / 10)"

definition similarStep :: "diff_main \<Rightarrow> block list \<Rightarrow> align_state \<Rightarrow> nat \<times> block \<Rightarrow> align_state" where
  "similarStep diff_main rightBlocks st p =
     (case p of (leftIndex, leftBlock) \<Rightarrow>
        if leftIndex \<in> leftUsed st then st
        else
          (case findIndex (similarCandidate diff_main st leftBlock) rightBlocks of
             None \<Rightarrow> st
           | Some rightIndex \<Rightarrow>
               matched st leftIndex leftBlock rightIndex (rightBlocks ! rightIndex) Modified))"

text \<open>Third pass: unmatched blocks.\<close>

definition removedEntries :: "nat set \<Rightarrow> block list \<Rightarrow> entry list" where
  "removedEntries used leftBlocks =
     map (\<lambda>p. \<lparr>left = Some (snd p), right = None, etype = Removed\<rparr>)
       (filter (\<lambda>p. fst p \<notin> used) (enumerate 0 leftBlocks))"

definition addedEntries :: "nat set \<Rightarrow> block list \<Rightarrow> entry list" where
  "addedEntries used rightBlocks =
     map (\<lambda>p. \<lparr>left = None, right = Some (snd p), etype = Added\<rparr>)
       (filter (\<lambda>p. fst p \<notin> used) (enumerate 0 rightBlocks))"

text \<open>The sort key \<open>a.left?.index ?? a.right?.index ?? 0\<close>.\<close>

definition entryIndex :: "entry \<Rightarrow> nat" where
  "entryIndex a =
     (case left a of Some l \<Rightarrow> index l
      | None \<Rightarrow> (case right a of Some r \<Rightarrow> index r | None \<Rightarrow> 0))"

definition matchPasses ::
  "lower_case \<Rightarrow> diff_main \<Rightarrow> block list \<Rightarrow> block list \<Rightarrow> align_state" where
  "matchPasses toLowerCase diff_main leftBlocks rightBlocks =
     foldl (similarStep diff_main rightBlocks)
       (foldl (exactStep toLowerCase rightBlocks)
          \<lparr>alignment = [], leftUsed = {}, rightUsed = {}\<rparr> (enumerate 0 leftBlocks))
       (enumerate 0 leftBlocks)"

text \<open>\<open>Array.prototype.sort\<close> with the comparator \<open>aIndex - bIndex\<close> is a stable sort by
  the key (ECMAScript 2019), as \<open>sort_key\<close> is.\<close>

definition alignBlocks ::
  "lower_case \<Rightarrow> diff_main \<Rightarrow> block list \<Rightarrow> block list \<Rightarrow> entry list" where
  "alignBlocks toLowerCase diff_main leftBlocks rightBlocks =
     (let st = matchPasses toLowerCase diff_main leftBlocks rightBlocks
      in sort_key entryIndex
           (alignment st @ removedEntries (leftUsed st) leftBlocks
              @ addedEntries (rightUsed st) rightBlocks))"

text \<open>The counters of \<open>applyMutualBlockComparison\<close>: the pair \<open>(additions, deletions)\<close>
  of \<open>blockSummary\<close>, counted by \<open>alignment.forEach\<close>.\<close>

definition blockSummaryStep :: "nat \<times> nat \<Rightarrow> entry \<Rightarrow> nat \<times> nat" where
  "blockSummaryStep acc e =
     (case acc of (adds, dels) \<Rightarrow>
        if etype e = Added then (if right e \<noteq> None then (adds + 1, dels) else acc)
        else if etype e = Removed then (if left e \<noteq> None then (adds, dels + 1) else acc)
        else if etype e = Modified then
          (if left e \<noteq> None \<and> right e \<noteq> None then (adds + 1, dels + 1) else acc)
        else acc)"

definition blockSummary :: "entry list \<Rightarrow> nat \<times> nat" where
  "blockSummary al = foldl blockSummaryStep (0, 0) al"

section \<open>compareHtmlDocuments\<close>

text \<open>
  The report types. A status is one of the strings \<open>"UNCHANGED"\<close>, \<open>"MODIFIED"\<close>,
  \<open>"REMOVED"\<close>, \<open>"ADDED"\<close>, \<open>"FORMATTING-ONLY"\<close> and \<open>"REPLACED"\<close>.
\<close>

datatype status = UNCHANGED | MODIFIED | REMOVED | ADDED | FORMATTING_ONLY | REPLACED

record report_line =
  v1 :: jstring
  v2 :: jstring
  lstatus :: status
  diffHtml :: jstring
  formatChanges :: "jstring list"

text \<open>A table entry carries \<open>row\<close>, \<open>col\<close> and \<open>diffHtml\<close> only in some of the places
  that build one, an image entry \<open>src\<close> or \<open>from\<close> and \<open>to\<close>; an absent property is
  \<open>None\<close>.\<close>

record table_report =
  table :: nat
  row :: "nat option"
  col :: "nat option"
  tstatus :: status
  tdiffHtml :: "jstring option"

record image_report =
  iindex :: nat
  istatus :: status
  src :: "jstring option"
  replacedFrom :: "jstring option"
  replacedTo :: "jstring option"

record detailed_report =
  lines :: "report_line list"
  tables :: "table_report list"
  images :: "image_report list"

record html_comparison = text_comparison +
  detailed :: detailed_report

datatype error = ReferenceError | Thrown string

text \<open>
  The browser as far as the text check needs it. A \<open>dom\<close> gives the \<open>textContent\<close> of a
  fresh \<open>div\<close> after \<open>div.innerHTML = html\<close>, and \<open>None\<close> when that assignment throws. A
  host says whether the global \<open>window\<close> exists and holds the \<open>document\<close>, if there is
  one. \<open>extractPlainText\<close> is the function on a host that has a document;
  \<open>extractPlainTextIn\<close> adds the \<open>ReferenceError\<close> that \<open>document.createElement\<close>
  raises on a host that has none.
\<close>

type_synonym dom = "jstring \<Rightarrow> jstring option"

record host =
  hasWindow :: bool
  document :: "dom option"

definition extractPlainText :: "dom \<Rightarrow> jstring \<Rightarrow> jstring" where
  "extractPlainText doc html =
     (if html = [] then []
      else (case doc html of None \<Rightarrow> [] | Some textContent \<Rightarrow> textContent))"

definition extractPlainTextIn :: "dom option \<Rightarrow> jstring \<Rightarrow> error + jstring" where
  "extractPlainTextIn d html =
     (if html = [] then Inr []
      else (case d of None \<Rightarrow> Inl ReferenceError
            | Some doc \<Rightarrow> Inr (extractPlainText doc html)))"

text \<open>The object returned for identical documents and by the \<open>catch\<close> block.\<close>

definition originalContent :: "jstring \<Rightarrow> jstring \<Rightarrow> html_comparison" where
  "originalContent leftHtml rightHtml =
     \<lparr>leftDiffs = [\<lparr>ptype = TypeEqual, content = leftHtml\<rparr>],
      rightDiffs = [\<lparr>ptype = TypeEqual, content = rightHtml\<rparr>],
      summary = \<lparr>additions = 0, deletions = 0, changes = 0\<rparr>,
      detailed = \<lparr>lines = [], tables = [], images = []\<rparr>\<rparr>"

text \<open>\<open>try { body } catch (error) { handler }\<close>: the outcome of a computation is its result
  (\<open>Inr\<close>) or the exception it throws (\<open>Inl\<close>).\<close>

definition tryCatch :: "error + 'a \<Rightarrow> (error \<Rightarrow> error + 'a) \<Rightarrow> error + 'a" where
  "tryCatch body handler = (case body of Inr v \<Rightarrow> Inr v | Inl e \<Rightarrow> handler e)"

text \<open>
  \<open>compareHtmlDocuments\<close> of \<open>textComparison.js\<close>. \<open>comparisonAttempt\<close> is the \<open>try\<close>
  block of \<open>performComparison\<close>; \<open>performOptimizedMutualComparison\<close>, which works on live
  DOM nodes, is a parameter that returns its result or the exception it throws. The
  outcome of \<open>performComparison\<close> is the value it passes to \<open>resolve\<close>.

  The outcome of \<open>compareHtmlDocuments\<close> is the value the returned promise resolves to
  (\<open>Inr\<close>) or the reason it is rejected with (\<open>Inl\<close>). The promise executor reads
  \<open>window.requestIdleCallback\<close> outside the \<open>try\<close> block: without a global \<open>window\<close>
  that read throws a \<open>ReferenceError\<close> and the promise is rejected. With one,
  \<open>performComparison\<close> is run by \<open>requestIdleCallback\<close> or by \<open>setTimeout\<close>, which does
  not change the value.
\<close>

definition comparisonAttempt ::
  "dom option \<Rightarrow> (jstring \<Rightarrow> jstring \<Rightarrow> error + html_comparison) \<Rightarrow> jstring \<Rightarrow> jstring
     \<Rightarrow> error + html_comparison" where
  "comparisonAttempt d performOptimizedMutualComparison leftHtml rightHtml =
     (case extractPlainTextIn d leftHtml of
        Inl e \<Rightarrow> Inl e
      | Inr leftText \<Rightarrow>
          (case extractPlainTextIn d rightHtml of
             Inl e \<Rightarrow> Inl e
           | Inr rightText \<Rightarrow>
               if trim leftText = trim rightText then Inr (originalContent leftHtml rightHtml)
               else performOptimizedMutualComparison leftHtml rightHtml))"

definition performComparison ::
  "dom option \<Rightarrow> (jstring \<Rightarrow> jstring \<Rightarrow> error + html_comparison) \<Rightarrow> jstring \<Rightarrow> jstring
     \<Rightarrow> error + html_comparison" where
  "performComparison d performOptimizedMutualComparison leftHtml rightHtml =
     tryCatch (comparisonAttempt d performOptimizedMutualComparison leftHtml rightHtml)
       (\<lambda>error. Inr (originalContent leftHtml rightHtml))"

definition compareHtmlDocuments ::
  "host \<Rightarrow> (jstring \<Rightarrow> jstring \<Rightarrow> error + html_comparison) \<Rightarrow> jstring \<Rightarrow> jstring
     \<Rightarrow> error + html_comparison" where
  "compareHtmlDocuments h performOptimizedMutualComparison leftHtml rightHtml =
     (if hasWindow h
      then performComparison (document h) performOptimizedMutualComparison leftHtml rightHtml
      else Inl ReferenceError)"

text \<open>
  The synchronous \<open>compareHtmlDocuments\<close> of the block pipeline, which never reads
  \<open>window\<close>. Its four stages and the report generator rewrite HTML through the DOM; each
  is a parameter that returns its result (the two rewritten documents and its counters
  \<open>(additions, deletions)\<close>) or the exception it throws. An exception is an error object
  of the engine or of the DOM, so the \<open>catch\<close> block can read its \<open>stack\<close> for the
  log.
\<close>

type_synonym stage = "jstring \<Rightarrow> jstring \<Rightarrow> error + (jstring \<times> jstring \<times> nat \<times> nat)"

record stages =
  applyMutualBlockComparison :: stage
  applyMutualImageComparison :: stage
  applyMutualTableComparison :: stage
  applyMutualWordLevelComparison :: stage
  generateDetailedReportHtml :: "jstring \<Rightarrow> jstring \<Rightarrow> error + detailed_report"

definition blockComparisonAttempt ::
  "dom option \<Rightarrow> stages \<Rightarrow> jstring \<Rightarrow> jstring \<Rightarrow> error + html_comparison" where
  "blockComparisonAttempt d sg leftHtml rightHtml =
     (case extractPlainTextIn d leftHtml of
        Inl e \<Rightarrow> Inl e
      | Inr leftText \<Rightarrow>
     (case extractPlainTextIn d rightHtml of
        Inl e \<Rightarrow> Inl e
      | Inr rightText \<Rightarrow>
     if trim leftText = trim rightText then Inr (originalContent leftHtml rightHtml)
     else if d = None then Inr (originalContent leftHtml rightHtml)
     else
     (case applyMutualBlockComparison sg leftHtml rightHtml of
        Inl e \<Rightarrow> Inl e
      | Inr (leftWithBlocks, rightWithBlocks, blockAdd, blockDel) \<Rightarrow>
     (case applyMutualImageComparison sg leftWithBlocks rightWithBlocks of
        Inl e \<Rightarrow> Inl e
      | Inr (leftWithImages, rightWithImages, imageAdd, imageDel) \<Rightarrow>
     (case applyMutualTableComparison sg leftWithImages rightWithImages of
        Inl e \<Rightarrow> Inl e
      | Inr (leftWithTables, rightWithTables, tableAdd, tableDel) \<Rightarrow>
     (case applyMutualWordLevelComparison sg leftWithTables rightWithTables of
        Inl e \<Rightarrow> Inl e
      | Inr (leftFinal, rightFinal, textAdd, textDel) \<Rightarrow>
     (case generateDetailedReportHtml sg leftHtml rightHtml of
        Inl e \<Rightarrow> Inl e
      | Inr report \<Rightarrow>
          Inr \<lparr>leftDiffs = [\<lparr>ptype = TypeEqual, content = leftFinal\<rparr>],
               rightDiffs = [\<lparr>ptype = TypeEqual, content = rightFinal\<rparr>],
               summary =
                 \<lparr>additions = blockAdd + imageAdd + tableAdd + textAdd,
                  deletions = blockDel + imageDel + tableDel + textDel,
                  changes = (blockAdd + imageAdd + tableAdd + textAdd)
                            + (blockDel + imageDel + tableDel + textDel)\<rparr>,
               detailed = report\<rparr>)))))))"

definition compareHtmlDocumentsBlocks ::
  "host \<Rightarrow> stages \<Rightarrow> jstring \<Rightarrow> jstring \<Rightarrow> error + html_comparison" where
  "compareHtmlDocumentsBlocks h sg leftHtml rightHtml =
     tryCatch (blockComparisonAttempt (document h) sg leftHtml rightHtml)
       (\<lambda>error. Inr (originalContent leftHtml rightHtml))"

section \<open>Markup\<close>

text \<open>
  \<open>escapeHtml\<close> writes the text into a \<open>div\<close> as \<open>textContent\<close> and reads
  \<open>innerHTML\<close> back: the serialisation replaces \<open>&\<close>, \<open><\<close>, \<open>>\<close> and the no-break
  space U+00A0 by their entities.
\<close>

definition escapeChar :: "nat \<Rightarrow> jstring" where
  "escapeChar c =
     (if c = 38 then str ''&amp;''
      else if c = 60 then str ''&lt;''
      else if c = 62 then str ''&gt;''
      else if c = 160 then str ''&nbsp;''
      else [c])"

definition escapeHtml :: "jstring \<Rightarrow> jstring" where
  "escapeHtml text = concat (map escapeChar text)"

datatype side = LeftSide | RightSide

definition addedSpan :: "jstring \<Rightarrow> jstring" where
  "addedSpan inner = str ''<span class=\"git-inline-added\">'' @ inner @ str ''</span>''"

definition removedSpan :: "jstring \<Rightarrow> jstring" where
  "removedSpan inner = str ''<span class=\"git-inline-removed\">'' @ inner @ str ''</span>''"

text \<open>\<open>applyDiffHighlighting\<close> of \<open>textComparison.js\<close>.\<close>

definition highlightDiff :: "side \<Rightarrow> diff \<Rightarrow> jstring" where
  "highlightDiff sd d =
     (case d of (operation, text) \<Rightarrow>
        if operation = DIFF_EQUAL then escapeHtml text
        else if operation = DIFF_INSERT then
          (if sd = RightSide then addedSpan (escapeHtml text)
           else str ''<span class=\"git-inline-placeholder\" style=\"color: #22c55e; font-style: italic; opacity: 0.7; background: #f0fdf4; padding: 1px 3px; border-radius: 2px;\">[+''
                @ escapeHtml text @ str '']</span>'')
        else
          (if sd = LeftSide then removedSpan (escapeHtml text)
           else str ''<span class=\"git-inline-placeholder\" style=\"color: #ef4444; font-style: italic; opacity: 0.7; background: #fef2f2; padding: 1px 3px; border-radius: 2px;\">[-''
                @ escapeHtml text @ str '']</span>''))"

definition applyDiffHighlighting :: "diff list \<Rightarrow> side \<Rightarrow> jstring" where
  "applyDiffHighlighting ds sd = concat (map (highlightDiff sd) ds)"

text \<open>The browser, the \<open>diff-match-patch\<close> instance and \<open>String.prototype.toLowerCase\<close> that
  the element comparison uses.\<close>

record env =
  domText :: dom
  dmp_diff_main :: diff_main
  dmp_cleanupSemantic :: "diff list \<Rightarrow> diff list"
  str_toLowerCase :: lower_case

definition performWordLevelDiff :: "env \<Rightarrow> jstring \<Rightarrow> jstring \<Rightarrow> jstring \<times> jstring" where
  "performWordLevelDiff ev leftHtml rightHtml =
     (let leftText = extractPlainText (domText ev) leftHtml;
          rightText = extractPlainText (domText ev) rightHtml;
          ds = dmp_cleanupSemantic ev (dmp_diff_main ev leftText rightText)
      in (applyDiffHighlighting ds LeftSide, applyDiffHighlighting ds RightSide))"

text \<open>\<open>createInlineDiff\<close>.\<close>

definition inlineDiffPart :: "diff \<Rightarrow> jstring" where
  "inlineDiffPart d =
     (case d of (operation, text) \<Rightarrow>
        if operation = DIFF_INSERT then addedSpan (escapeHtml text)
        else if operation = DIFF_DELETE then removedSpan (escapeHtml text)
        else escapeHtml text)"

definition createInlineDiff :: "env \<Rightarrow> jstring \<Rightarrow> jstring \<Rightarrow> jstring" where
  "createInlineDiff ev leftText rightText =
     concat (map inlineDiffPart (dmp_cleanupSemantic ev (dmp_diff_main ev leftText rightText)))"

section \<open>Elements of textComparison.js\<close>

text \<open>
  The DOM node of an extracted element, as far as the comparison reads it: of a table
  its rows (\<open>tr\<close>) with the \<open>textContent\<close> of each cell (\<open>td\<close>, \<open>th\<close>), of an image its
  \<open>src\<close> and \<open>alt\<close>.
\<close>

datatype dom_element =
    TableElement "jstring list list"
  | ImageElement jstring jstring
  | OtherElement

fun rowsOf :: "dom_element \<Rightarrow> jstring list list" where
  "rowsOf (TableElement rs) = rs"
| "rowsOf _ = []"

text \<open>The properties \<open>src\<close> and \<open>alt\<close> of a node; \<open>None\<close> is \<open>undefined\<close>.\<close>

fun srcOf :: "dom_element \<Rightarrow> jstring option" where
  "srcOf (ImageElement s a) = Some s"
| "srcOf _ = None"

fun altOf :: "dom_element \<Rightarrow> jstring option" where
  "altOf (ImageElement s a) = Some a"
| "altOf _ = None"

text \<open>\<open>Array.prototype.join\<close>.\<close>

fun join :: "jstring \<Rightarrow> jstring list \<Rightarrow> jstring" where
  "join sep [] = []"
| "join sep [x] = x"
| "join sep (x # y # ys) = x @ sep @ join sep (y # ys)"

definition extractTableText :: "dom_element \<Rightarrow> jstring" where
  "extractTableText t =
     join [10] (map (\<lambda>cells. join (str '' | '') (map trim cells)) (rowsOf t))"

definition compareTableContent :: "dom_element \<Rightarrow> dom_element \<Rightarrow> bool" where
  "compareTableContent table1 table2 = (extractTableText table1 = extractTableText table2)"

record content_element =
  element :: dom_element
  etext :: jstring
  html :: jstring
  eindex :: nat
  etagName :: jstring
  isEmpty :: bool
  isTable :: bool
  isImage :: bool

definition areElementsEqual :: "env \<Rightarrow> content_element \<Rightarrow> content_element \<Rightarrow> bool" where
  "areElementsEqual ev element1 element2 =
     (if isTable element1 \<and> isTable element2 then
        compareTableContent (element element1) (element element2)
      else if isImage element1 \<and> isImage element2 then
        srcOf (element element1) = srcOf (element element2) \<and>
        altOf (element element1) = altOf (element element2)
      else areTextsEqual (str_toLowerCase ev) (etext element1) (etext element2))"

datatype highlight =
  HNone | HModified | HAdded | HRemoved | HEmptySpaceAdded | HEmptySpaceRemoved

datatype placeholder_type = PTable | PImage | PText

text \<open>A processed element: the element's own properties (absent ones are \<open>None\<close>, and
  \<open>False\<close> for the flags) and what the comparison adds.\<close>

record processed =
  pelement :: "dom_element option"
  ptext :: jstring
  phtml :: jstring
  pindex :: "nat option"
  ptagName :: jstring
  pisEmpty :: bool
  pisTable :: bool
  pisImage :: bool
  highlight :: highlight
  placeholderText :: "jstring option"
  placeholderType :: "placeholder_type option"
  processedHtml :: "jstring option"

text \<open>\<open>{ ...element, highlight }\<close>.\<close>

definition withHighlight :: "content_element \<Rightarrow> highlight \<Rightarrow> processed" where
  "withHighlight e h =
     \<lparr>pelement = Some (element e), ptext = etext e, phtml = html e, pindex = Some (eindex e),
      ptagName = etagName e, pisEmpty = isEmpty e, pisTable = isTable e, pisImage = isImage e,
      highlight = h, placeholderText = None, placeholderType = None, processedHtml = None\<rparr>"

definition placeholderTypeOf :: "content_element \<Rightarrow> placeholder_type" where
  "placeholderTypeOf e = (if isTable e then PTable else if isImage e then PImage else PText)"

text \<open>The object \<open>{ element: null, text: '', html: '', isEmpty: true, highlight, ... }\<close>
  pushed on the side that has no element at a position.\<close>

definition emptySpace :: "highlight \<Rightarrow> content_element \<Rightarrow> processed" where
  "emptySpace h other =
     \<lparr>pelement = None, ptext = [], phtml = [], pindex = None, ptagName = etagName other,
      pisEmpty = True, pisTable = False, pisImage = False, highlight = h,
      placeholderText = Some (etext other), placeholderType = Some (placeholderTypeOf other),
      processedHtml = None\<rparr>"

record element_comparison =
  leftProcessed :: "processed list"
  rightProcessed :: "processed list"
  eadditions :: nat
  edeletions :: nat

definition push ::
  "element_comparison \<Rightarrow> processed \<Rightarrow> processed \<Rightarrow> nat \<Rightarrow> nat \<Rightarrow> element_comparison" where
  "push acc l r a d =
     \<lparr>leftProcessed = leftProcessed acc @ [l], rightProcessed = rightProcessed acc @ [r],
      eadditions = eadditions acc + a, edeletions = edeletions acc + d\<rparr>"

text \<open>\<open>xs[i]\<close> for an index that may be out of range: \<open>None\<close> is \<open>undefined\<close>. The loops
  \<open>for (i = 0; i < Math.max(xs.length, ys.length); i++)\<close> read \<open>xs[i]\<close> and \<open>ys[i]\<close>.\<close>

definition nthOpt :: "'a list \<Rightarrow> nat \<Rightarrow> 'a option" where
  "nthOpt xs i = (if i < length xs then Some (xs ! i) else None)"

definition positions :: "'a list \<Rightarrow> 'b list \<Rightarrow> ('a option \<times> 'b option) list" where
  "positions xs ys = map (\<lambda>i. (nthOpt xs i, nthOpt ys i)) [0..<max (length xs) (length ys)]"

text \<open>The body of the loop of \<open>performMutualElementComparison\<close>.\<close>

fun compareElements ::
  "env \<Rightarrow> element_comparison \<Rightarrow> content_element option \<times> content_element option
     \<Rightarrow> element_comparison" where
  "compareElements ev acc (Some leftElement, Some rightElement) =
     (if isTable leftElement \<and> isTable rightElement then
        (if compareTableContent (element leftElement) (element rightElement) then
           push acc (withHighlight leftElement HNone) (withHighlight rightElement HNone) 0 0
         else
           push acc (withHighlight leftElement HModified) (withHighlight rightElement HModified) 1 1)
      else if isImage leftElement \<and> isImage rightElement then
        (if srcOf (element leftElement) = srcOf (element rightElement) \<and>
            altOf (element leftElement) = altOf (element rightElement) then
           push acc (withHighlight leftElement HNone) (withHighlight rightElement HNone) 0 0
         else
           push acc (withHighlight leftElement HModified) (withHighlight rightElement HModified) 1 1)
      else if isEmpty leftElement \<and> isEmpty rightElement then
        push acc (withHighlight leftElement HNone) (withHighlight rightElement HNone) 0 0
      else if isEmpty leftElement \<and> \<not> isEmpty rightElement then
        push acc
          ((withHighlight leftElement HEmptySpaceAdded)
             \<lparr>placeholderText := Some (etext rightElement),
              placeholderType := Some (placeholderTypeOf rightElement)\<rparr>)
          (withHighlight rightElement HAdded) 1 0
      else if \<not> isEmpty leftElement \<and> isEmpty rightElement then
        push acc (withHighlight leftElement HRemoved)
          ((withHighlight rightElement HEmptySpaceRemoved)
             \<lparr>placeholderText := Some (etext leftElement),
              placeholderType := Some (placeholderTypeOf leftElement)\<rparr>) 0 1
      else if areElementsEqual ev leftElement rightElement then
        push acc (withHighlight leftElement HNone) (withHighlight rightElement HNone) 0 0
      else if isTable leftElement \<or> isTable rightElement \<or> isImage leftElement
              \<or> isImage rightElement then
        push acc (withHighlight leftElement HModified) (withHighlight rightElement HModified) 1 1
      else
        (case performWordLevelDiff ev (html leftElement) (html rightElement) of
           (leftHighlighted, rightHighlighted) \<Rightarrow>
             push acc
               ((withHighlight leftElement HModified)\<lparr>processedHtml := Some leftHighlighted\<rparr>)
               ((withHighlight rightElement HModified)\<lparr>processedHtml := Some rightHighlighted\<rparr>)
               1 1))"
| "compareElements ev acc (Some leftElement, None) =
     push acc (withHighlight leftElement HRemoved) (emptySpace HEmptySpaceRemoved leftElement) 0 1"
| "compareElements ev acc (None, Some rightElement) =
     push acc (emptySpace HEmptySpaceAdded rightElement) (withHighlight rightElement HAdded) 1 0"
| "compareElements ev acc (None, None) = acc"

definition performMutualElementComparison ::
  "env \<Rightarrow> content_element list \<Rightarrow> content_element list \<Rightarrow> element_comparison" where
  "performMutualElementComparison ev leftElements rightElements =
     foldl (compareElements ev)
       \<lparr>leftProcessed = [], rightProcessed = [], eadditions = 0, edeletions = 0\<rparr>
       (positions leftElements rightElements)"

text \<open>The \<open>summary\<close> that \<open>performMutualElementComparison\<close> returns.\<close>

definition elementSummary :: "element_comparison \<Rightarrow> summary" where
  "elementSummary r =
     \<lparr>additions = eadditions r, deletions = edeletions r, changes = eadditions r + edeletions r\<rparr>"

section \<open>generateDetailedReport of textComparison.js\<close>

text \<open>\<open>String(n)\<close> for a non-negative integer.\<close>

fun showNat :: "nat \<Rightarrow> jstring" where
  "showNat n = (if n < 10 then [48 + n] else showNat (n div 10) @ [48 + n mod 10])"

text \<open>\<open>x?.isTable\<close> and \<open>x?.isImage\<close> for a possibly undefined element.\<close>

definition optTable :: "content_element option \<Rightarrow> bool" where
  "optTable x = (case x of Some e \<Rightarrow> isTable e | None \<Rightarrow> False)"

definition optImage :: "content_element option \<Rightarrow> bool" where
  "optImage x = (case x of Some e \<Rightarrow> isImage e | None \<Rightarrow> False)"

definition tableEntry :: "nat \<Rightarrow> status \<Rightarrow> jstring \<Rightarrow> table_report" where
  "tableEntry i st markup =
     \<lparr>table = i + 1, row = None, col = None, tstatus = st, tdiffHtml = Some markup\<rparr>"

definition imageEntry :: "nat \<Rightarrow> status \<Rightarrow> image_report" where
  "imageEntry i st =
     \<lparr>iindex = i + 1, istatus = st, src = None, replacedFrom = None, replacedTo = None\<rparr>"

text \<open>The body of the loop of \<open>generateDetailedReport\<close>, at position \<open>i\<close>.\<close>

fun reportElements ::
  "env \<Rightarrow> detailed_report \<Rightarrow> nat \<times> content_element option \<times> content_element option
     \<Rightarrow> detailed_report" where
  "reportElements ev rep (i, leftElement, rightElement) =
     (if optTable leftElement \<or> optTable rightElement then
        (case (leftElement, rightElement) of
           (Some l, Some r) \<Rightarrow>
             if isTable l \<and> isTable r then
               (let tablesEqual = compareTableContent (element l) (element r)
                in rep\<lparr>tables := tables rep @
                     [tableEntry i (if tablesEqual then UNCHANGED else MODIFIED)
                        (if tablesEqual then escapeHtml (etext l)
                         else createInlineDiff ev (etext l) (etext r))]\<rparr>)
             else if isTable l \<and> \<not> isTable r then
               rep\<lparr>tables := tables rep @ [tableEntry i REMOVED (removedSpan (escapeHtml (etext l)))]\<rparr>
             else if \<not> isTable l \<and> isTable r then
               rep\<lparr>tables := tables rep @ [tableEntry i ADDED (addedSpan (escapeHtml (etext r)))]\<rparr>
             else rep
         | (Some l, None) \<Rightarrow>
             if isTable l then
               rep\<lparr>tables := tables rep @ [tableEntry i REMOVED (removedSpan (escapeHtml (etext l)))]\<rparr>
             else rep
         | (None, Some r) \<Rightarrow>
             if isTable r then
               rep\<lparr>tables := tables rep @ [tableEntry i ADDED (addedSpan (escapeHtml (etext r)))]\<rparr>
             else rep
         | (None, None) \<Rightarrow> rep)
      else if optImage leftElement \<or> optImage rightElement then
        (case (leftElement, rightElement) of
           (Some l, Some r) \<Rightarrow>
             if isImage l \<and> isImage r then
               (let imagesEqual = (srcOf (element l) = srcOf (element r))
                in rep\<lparr>images := images rep @
                     [imageEntry i (if imagesEqual then UNCHANGED else MODIFIED)]\<rparr>)
             else if isImage l \<and> \<not> isImage r then
               rep\<lparr>images := images rep @ [imageEntry i REMOVED]\<rparr>
             else if \<not> isImage l \<and> isImage r then
               rep\<lparr>images := images rep @ [imageEntry i ADDED]\<rparr>
             else rep
         | (Some l, None) \<Rightarrow>
             if isImage l then rep\<lparr>images := images rep @ [imageEntry i REMOVED]\<rparr> else rep
         | (None, Some r) \<Rightarrow>
             if isImage r then rep\<lparr>images := images rep @ [imageEntry i ADDED]\<rparr> else rep
         | (None, None) \<Rightarrow> rep)
      else
        (case (leftElement, rightElement) of
           (Some l, Some r) \<Rightarrow>
             if areTextsEqual (str_toLowerCase ev) (etext l) (etext r) then
               rep\<lparr>lines := lines rep @
                 [\<lparr>v1 = showNat (i + 1), v2 = showNat (i + 1), lstatus = UNCHANGED,
                   diffHtml = escapeHtml (etext l), formatChanges = []\<rparr>]\<rparr>
             else
               rep\<lparr>lines := lines rep @
                 [\<lparr>v1 = showNat (i + 1), v2 = showNat (i + 1), lstatus = MODIFIED,
                   diffHtml = createInlineDiff ev (etext l) (etext r),
                   formatChanges = [str ''Content modified'']\<rparr>]\<rparr>
         | (Some l, None) \<Rightarrow>
             rep\<lparr>lines := lines rep @
               [\<lparr>v1 = showNat (i + 1), v2 = [], lstatus = REMOVED,
                 diffHtml = removedSpan (escapeHtml (etext l)),
                 formatChanges = [str ''Line removed'']\<rparr>]\<rparr>
         | (None, Some r) \<Rightarrow>
             rep\<lparr>lines := lines rep @
               [\<lparr>v1 = [], v2 = showNat (i + 1), lstatus = ADDED,
                 diffHtml = addedSpan (escapeHtml (etext r)),
                 formatChanges = [str ''Line added'']\<rparr>]\<rparr>
         | (None, None) \<Rightarrow> rep))"

definition generateDetailedReport ::
  "env \<Rightarrow> content_element list \<Rightarrow> content_element list \<Rightarrow> detailed_report" where
  "generateDetailedReport ev leftElements rightElements =
     foldl (reportElements ev) \<lparr>lines = [], tables = [], images = []\<rparr>
       (enumerate 0 (positions leftElements rightElements))"

section \<open>Tables and images in the block pipeline\<close>






text \<open>The counters \<open>imageSummary\<close> of \<open>applyMutualImageComparison\<close>, which compares
  \<open>getAttribute("src") || ""\<close> only.\<close>

definition srcAttribute :: "dom_element \<Rightarrow> jstring" where
  "srcAttribute img = (case srcOf img of Some s \<Rightarrow> s | None \<Rightarrow> [])"

fun countImages :: "nat \<times> nat \<Rightarrow> dom_element option \<times> dom_element option \<Rightarrow> nat \<times> nat" where
  "countImages (adds, dels) (Some leftImg, None) = (adds, dels + 1)"
| "countImages (adds, dels) (None, Some rightImg) = (adds + 1, dels)"
| "countImages (adds, dels) (Some leftImg, Some rightImg) =
     (if srcAttribute leftImg \<noteq> srcAttribute rightImg then (adds + 1, dels + 1) else (adds, dels))"
| "countImages (adds, dels) (None, None) = (adds, dels)"

definition imageSummary :: "dom_element list \<Rightarrow> dom_element list \<Rightarrow> nat \<times> nat" where
  "imageSummary leftImages rightImages = foldl countImages (0, 0) (positions leftImages rightImages)"

section \<open>The line report of the block pipeline\<close>

text \<open>The formatting flags that \<open>extractLineFeatures\<close> reads off a block, and a line of
  \<open>collectBlockLinesWithFormat\<close> (without its DOM element).\<close>

record line_format =
  hasBold :: bool
  hasItalic :: bool
  hasUnderline :: bool
  fontSize :: jstring
  textAlign :: jstring

record block_line =
  lindex :: nat
  ltext :: jstring
  fmt :: line_format

text \<open>
  \<open>visibleSpaces\<close> replaces every space and then every tab by a marked span. The first
  replacement introduces no tab, so the two passes are one pass over the code units. The
  span of a space holds the middle dot U+00B7, the span of a tab the arrow U+2192.
\<close>

definition middleDot :: jstring where
  "middleDot = [183]"

definition rightArrow :: jstring where
  "rightArrow = [8594]"

definition visibleChar :: "nat \<Rightarrow> jstring" where
  "visibleChar c =
     (if c = 32 then str ''<span class=\"ws\">'' @ middleDot @ str ''</span>''
      else if c = 9 then str ''<span class=\"ws\">'' @ rightArrow @ str ''</span>''
      else [c])"

definition visibleSpaces :: "jstring \<Rightarrow> jstring" where
  "visibleSpaces s = concat (map visibleChar s)"

definition inlineDiffHtmlPart :: "diff \<Rightarrow> jstring" where
  "inlineDiffHtmlPart d =
     (case d of (operation, text) \<Rightarrow>
        let val = visibleSpaces (escapeHtml text)
        in if operation = DIFF_INSERT then addedSpan val
           else if operation = DIFF_DELETE then removedSpan val
           else val)"

definition inlineDiffHtml :: "env \<Rightarrow> jstring \<Rightarrow> jstring \<Rightarrow> jstring" where
  "inlineDiffHtml ev a b =
     concat (map inlineDiffHtmlPart (dmp_cleanupSemantic ev (dmp_diff_main ev a b)))"

definition onOff :: "bool \<Rightarrow> jstring" where
  "onOff b = (if b then str ''on'' else str ''off'')"

definition orAuto :: "jstring \<Rightarrow> jstring" where
  "orAuto s = (if s = [] then str ''auto'' else s)"

definition compareFormat :: "line_format \<Rightarrow> line_format \<Rightarrow> jstring list" where
  "compareFormat fa fb =
     (if hasBold fa \<noteq> hasBold fb
      then [str ''bold: '' @ onOff (hasBold fa) @ str '' '' @ rightArrow @ str '' '' @ onOff (hasBold fb)] else [])
     @ (if hasItalic fa \<noteq> hasItalic fb
      then [str ''italic: '' @ onOff (hasItalic fa) @ str '' '' @ rightArrow @ str '' '' @ onOff (hasItalic fb)]
      else [])
     @ (if hasUnderline fa \<noteq> hasUnderline fb
      then [str ''underline: '' @ onOff (hasUnderline fa) @ str '' '' @ rightArrow @ str '' ''
              @ onOff (hasUnderline fb)]
      else [])
     @ (if fontSize fa \<noteq> fontSize fb
      then [str ''font-size: '' @ orAuto (fontSize fa) @ str '' '' @ rightArrow @ str '' '' @ orAuto (fontSize fb)]
      else [])
     @ (if textAlign fa \<noteq> textAlign fb
      then [str ''alignment: '' @ orAuto (textAlign fa) @ str '' '' @ rightArrow @ str '' ''
              @ orAuto (textAlign fb)]
      else [])"

text \<open>
  \<open>areWordsEquivalent\<close>: the straight double and single quotes become a double quote, the
  en dash U+2013 and the em dash U+2014 a hyphen, then the word is trimmed and put in lower
  case.
\<close>

definition replaceQuotes :: "jstring \<Rightarrow> jstring" where
  "replaceQuotes w = map (\<lambda>c. if c = 34 \<or> c = 39 then 34 else c) w"

definition replaceDashes :: "jstring \<Rightarrow> jstring" where
  "replaceDashes w = map (\<lambda>c. if c = 8211 \<or> c = 8212 then 45 else c) w"

definition normalizeWord :: "lower_case \<Rightarrow> jstring \<Rightarrow> jstring" where
  "normalizeWord toLowerCase w = toLowerCase (trim (replaceDashes (replaceQuotes w)))"

definition areWordsEquivalent :: "lower_case \<Rightarrow> jstring \<Rightarrow> jstring \<Rightarrow> bool" where
  "areWordsEquivalent toLowerCase word1 word2 =
     (normalizeWord toLowerCase word1 = normalizeWord toLowerCase word2)"

text \<open>A change object of \<open>diffArrays\<close>: \<open>{ count, value, added, removed }\<close>, and the
  function itself with its comparator option.\<close>

record array_change =
  acount :: "nat option"
  avalue :: "jstring list"
  aadded :: bool
  aremoved :: bool

type_synonym diffArrays =
  "(jstring \<Rightarrow> jstring \<Rightarrow> bool) \<Rightarrow> jstring list \<Rightarrow> jstring list \<Rightarrow> array_change list"

text \<open>The loop variables \<open>iL\<close>, \<open>iR\<close>, \<open>v1\<close>, \<open>v2\<close> and the array \<open>lines\<close>.\<close>

record report_state =
  iL :: nat
  iR :: nat
  cv1 :: nat
  cv2 :: nat
  rlines :: "report_line list"

text \<open>One turn of the inner loop for an added part.\<close>

definition addedLine :: "env \<Rightarrow> block_line list \<Rightarrow> report_state \<Rightarrow> report_state" where
  "addedLine ev rightLines st =
     (let r = nthOpt rightLines (iR st); st' = st\<lparr>iR := iR st + 1\<rparr>
      in case r of
           None \<Rightarrow> st'
         | Some rl \<Rightarrow>
             if trim (ltext rl) \<noteq> [] then
               st'\<lparr>rlines := rlines st @
                      [\<lparr>v1 = [], v2 = showNat (cv2 st), lstatus = ADDED,
                        diffHtml = inlineDiffHtml ev [] (ltext rl),
                        formatChanges = [str ''added line'']\<rparr>],
                   cv2 := cv2 st + 1\<rparr>
             else st')"

text \<open>One turn of the inner loop for a removed part.\<close>

definition removedLine :: "env \<Rightarrow> block_line list \<Rightarrow> report_state \<Rightarrow> report_state" where
  "removedLine ev leftLines st =
     (let l = nthOpt leftLines (iL st); st' = st\<lparr>iL := iL st + 1\<rparr>
      in case l of
           None \<Rightarrow> st'
         | Some ll \<Rightarrow>
             if trim (ltext ll) \<noteq> [] then
               st'\<lparr>rlines := rlines st @
                      [\<lparr>v1 = showNat (cv1 st), v2 = [], lstatus = REMOVED,
                        diffHtml = inlineDiffHtml ev (ltext ll) [],
                        formatChanges = [str ''removed line'']\<rparr>],
                   cv1 := cv1 st + 1\<rparr>
             else st')"

text \<open>One turn of the inner loop for an unchanged part.\<close>

definition commonLine ::
  "env \<Rightarrow> block_line list \<Rightarrow> block_line list \<Rightarrow> report_state \<Rightarrow> report_state" where
  "commonLine ev leftLines rightLines st =
     (let l = nthOpt leftLines (iL st); r = nthOpt rightLines (iR st);
          st' = st\<lparr>iL := iL st + 1, iR := iR st + 1\<rparr>
      in case (l, r) of
           (Some ll, Some rl) \<Rightarrow>
             (let textEqual = areWordsEquivalent (str_toLowerCase ev) (ltext ll) (ltext rl);
                  fmtChanges = compareFormat (fmt ll) (fmt rl)
              in if textEqual \<and> length fmtChanges > 0 then
                   st'\<lparr>rlines := rlines st @
                          [\<lparr>v1 = showNat (cv1 st), v2 = showNat (cv2 st), lstatus = FORMATTING_ONLY,
                            diffHtml = visibleSpaces (escapeHtml (ltext ll)),
                            formatChanges = fmtChanges\<rparr>],
                       cv1 := cv1 st + 1, cv2 := cv2 st + 1\<rparr>
                 else if textEqual then
                   st'\<lparr>rlines := rlines st @
                          [\<lparr>v1 = showNat (cv1 st), v2 = showNat (cv2 st), lstatus = UNCHANGED,
                            diffHtml = visibleSpaces (escapeHtml (ltext ll)),
                            formatChanges = []\<rparr>],
                       cv1 := cv1 st + 1, cv2 := cv2 st + 1\<rparr>
                 else if trim (ltext ll) \<noteq> [] \<or> trim (ltext rl) \<noteq> [] then
                   st'\<lparr>rlines := rlines st @
                          [\<lparr>v1 = showNat (cv1 st), v2 = showNat (cv2 st), lstatus = MODIFIED,
                            diffHtml = inlineDiffHtml ev (ltext ll) (ltext rl),
                            formatChanges = fmtChanges\<rparr>],
                       cv1 := cv1 st + 1, cv2 := cv2 st + 1\<rparr>
                 else st')
         | _ \<Rightarrow> st')"

text \<open>\<open>part.count || (part.value ? part.value.length : 0)\<close>.\<close>

definition partCount :: "array_change \<Rightarrow> nat" where
  "partCount part =
     (case acount part of
        Some n \<Rightarrow> if n \<noteq> 0 then n else length (avalue part)
      | None \<Rightarrow> length (avalue part))"

definition reportPart ::
  "env \<Rightarrow> block_line list \<Rightarrow> block_line list \<Rightarrow> report_state \<Rightarrow> array_change \<Rightarrow> report_state" where
  "reportPart ev leftLines rightLines st part =
     (if aadded part then ((addedLine ev rightLines) ^^ partCount part) st
      else if aremoved part then ((removedLine ev leftLines) ^^ partCount part) st
      else ((commonLine ev leftLines rightLines) ^^ partCount part) st)"

text \<open>The \<open>lines\<close> of \<open>generateDetailedReport\<close> of the block pipeline, for the lines
  collected from the two documents.\<close>

definition reportLines ::
  "env \<Rightarrow> diffArrays \<Rightarrow> block_line list \<Rightarrow> block_line list \<Rightarrow> report_line list" where
  "reportLines ev diffArrays leftLines rightLines =
     rlines (foldl (reportPart ev leftLines rightLines)
       \<lparr>iL = 0, iR = 0, cv1 = 1, cv2 = 1, rlines = []\<rparr>
       (diffArrays (areWordsEquivalent (str_toLowerCase ev)) (map ltext leftLines)
          (map ltext rightLines)))"

text \<open>\<open>contains pat s\<close>: the string \<open>pat\<close> occurs in \<open>s\<close>.\<close>

fun contains :: "'a list \<Rightarrow> 'a list \<Rightarrow> bool" where
  "contains pat [] = (pat = [])"
| "contains pat (c # cs) = (prefix pat (c # cs) \<or> contains pat cs)"

section \<open>Auxiliary notions\<close>

text \<open>The entry and the state of the first pass when a block list is aligned with
  itself: after \<open>n\<close> blocks, the first \<open>n\<close> blocks are paired with themselves.\<close>

definition selfEntry :: "block \<Rightarrow> entry" where
  "selfEntry b = \<lparr>left = Some b, right = Some b, etype = Equal\<rparr>"

definition selfState :: "block list \<Rightarrow> nat \<Rightarrow> align_state" where
  "selfState X n = \<lparr>alignment = map selfEntry (take n X), leftUsed = {..<n}, rightUsed = {..<n}\<rparr>"

text \<open>The invariant of the two matching passes of \<open>alignBlocks\<close>: the used indices are
  in range, every entry pairs two blocks as \<open>Equal\<close> or \<open>Modified\<close>, and the blocks in the
  entries are exactly the blocks at the used indices.\<close>

definition matchInv :: "block list \<Rightarrow> block list \<Rightarrow> align_state \<Rightarrow> bool" where
  "matchInv L R st =
     (leftUsed st \<subseteq> {..<length L} \<and> rightUsed st \<subseteq> {..<length R}
      \<and> (\<forall>e \<in> set (alignment st). left e \<noteq> None \<and> right e \<noteq> None
            \<and> (etype e = Equal \<or> etype e = Modified))
      \<and> mset (List.map_filter left (alignment st)) = image_mset (nth L) (mset_set (leftUsed st))
      \<and> mset (List.map_filter right (alignment st)) = image_mset (nth R) (mset_set (rightUsed st)))"

text \<open>The alignment of \<open>alignBlocks\<close> before it is sorted.\<close>

definition unsorted :: "lower_case \<Rightarrow> diff_main \<Rightarrow> block list \<Rightarrow> block list \<Rightarrow> entry list" where
  "unsorted lc dm L R =
     alignment (matchPasses lc dm L R) @ removedEntries (leftUsed (matchPasses lc dm L R)) L
       @ addedEntries (rightUsed (matchPasses lc dm L R)) R"






section \<open>Literals and evaluation\<close>

lemma str_Nil_iff [simp]: "(str s = []) = (s = [])"
  by (simp add: str_def)

lemma length_str [simp]: "length (str s) = length s"
  by (simp add: str_def)

text \<open>The equations that evaluate the text functions and the aligner on concrete inputs.\<close>

lemmas text_eval = areTextsEqual_def normalize_def trim_def isWhiteSpace_def asciiLower_def str_def

lemmas diff_eval = getTextSimilarity_def unchangedLength_def trimDiff_def nonEmptyDiff_def
  commonSuffix_def Let_def str_def

lemmas align_eval = alignBlocks_def matchPasses_def exactStep_def similarStep_def
  exactCandidate_def similarCandidate_def findIndex_def matched_def removedEntries_def
  addedEntries_def entryIndex_def enumerate_eq_zip

section \<open>Round trip of compareDocuments\<close>

lemma compareDocuments_fold_left:
  "map content (leftDiffs (foldl compareDocumentsStep acc cs)) =
     map content (leftDiffs acc) @ map cvalue (filter (\<lambda>c. \<not> added c) cs)"
  by (induction cs arbitrary: acc) (simp_all add: compareDocumentsStep_def)

lemma compareDocuments_fold_right:
  "list_all (\<lambda>c. \<not> (added c \<and> removed c)) cs \<Longrightarrow>
   map content (rightDiffs (foldl compareDocumentsStep acc cs)) =
     map content (rightDiffs acc) @ map cvalue (filter (\<lambda>c. \<not> removed c) cs)"
  by (induction cs arbitrary: acc) (auto simp add: compareDocumentsStep_def)

lemma compareDocumentsStep_left_types:
  "set (map ptype (leftDiffs acc)) \<subseteq> {TypeEqual, TypeDelete} \<Longrightarrow>
   set (map ptype (leftDiffs (compareDocumentsStep acc c))) \<subseteq> {TypeEqual, TypeDelete}"
  by (simp add: compareDocumentsStep_def)

lemma compareDocumentsStep_right_types:
  "set (map ptype (rightDiffs acc)) \<subseteq> {TypeEqual, TypeInsert} \<Longrightarrow>
   set (map ptype (rightDiffs (compareDocumentsStep acc c))) \<subseteq> {TypeEqual, TypeInsert}"
  by (simp add: compareDocumentsStep_def)

lemma compareDocuments_fold_left_types:
  "set (map ptype (leftDiffs acc)) \<subseteq> {TypeEqual, TypeDelete} \<Longrightarrow>
   set (map ptype (leftDiffs (foldl compareDocumentsStep acc cs))) \<subseteq> {TypeEqual, TypeDelete}"
proof (induction cs arbitrary: acc)
  case Nil
  then show ?case by simp
next
  case (Cons c cs)
  from Cons.IH [OF compareDocumentsStep_left_types [OF Cons.prems]] show ?case by simp
qed

lemma compareDocuments_fold_right_types:
  "set (map ptype (rightDiffs acc)) \<subseteq> {TypeEqual, TypeInsert} \<Longrightarrow>
   set (map ptype (rightDiffs (foldl compareDocumentsStep acc cs))) \<subseteq> {TypeEqual, TypeInsert}"
proof (induction cs arbitrary: acc)
  case Nil
  then show ?case by simp
next
  case (Cons c cs)
  from Cons.IH [OF compareDocumentsStep_right_types [OF Cons.prems]] show ?case by simp
qed

text \<open>
  C1. For all strings \<open>a\<close> and \<open>b\<close> (the empty string included), when the change list that
  \<open>diffChars\<close> returns for them reconstructs both, the pieces of \<open>leftDiffs\<close> are of type
  equal or delete and their contents, concatenated in order, are \<open>a\<close>; the pieces of
  \<open>rightDiffs\<close> are of type equal or insert and their contents, concatenated, are \<open>b\<close>.
\<close>

theorem compareDocuments_round_trip:
  assumes "changes_reconstruct (diffChars a b) a b"
  shows "concat (map content (leftDiffs (compareDocuments diffChars a b))) = a
       \<and> concat (map content (rightDiffs (compareDocuments diffChars a b))) = b
       \<and> set (map ptype (leftDiffs (compareDocuments diffChars a b))) \<subseteq> {TypeEqual, TypeDelete}
       \<and> set (map ptype (rightDiffs (compareDocuments diffChars a b))) \<subseteq> {TypeEqual, TypeInsert}"
proof -
  let ?init = "\<lparr>leftDiffs = [], rightDiffs = [], summary = zeroSummary\<rparr>"
  let ?acc = "foldl compareDocumentsStep ?init (diffChars a b)"
  have noBoth: "list_all (\<lambda>c. \<not> (added c \<and> removed c)) (diffChars a b)"
    and l: "concat (map cvalue (filter (\<lambda>c. \<not> added c) (diffChars a b))) = a"
    and r: "concat (map cvalue (filter (\<lambda>c. \<not> removed c) (diffChars a b))) = b"
    using assms by (simp_all add: changes_reconstruct_def)
  have "map content (leftDiffs ?acc) = map cvalue (filter (\<lambda>c. \<not> added c) (diffChars a b))"
    using compareDocuments_fold_left [of ?init "diffChars a b"] by simp
  moreover have "map content (rightDiffs ?acc) = map cvalue (filter (\<lambda>c. \<not> removed c) (diffChars a b))"
    using compareDocuments_fold_right [OF noBoth, of ?init] by simp
  moreover have "set (map ptype (leftDiffs ?acc)) \<subseteq> {TypeEqual, TypeDelete}"
    using compareDocuments_fold_left_types [of ?init "diffChars a b"] by simp
  moreover have "set (map ptype (rightDiffs ?acc)) \<subseteq> {TypeEqual, TypeInsert}"
    using compareDocuments_fold_right_types [of ?init "diffChars a b"] by simp
  ultimately show ?thesis
    using l r by (simp add: compareDocuments_def Let_def)
qed

theorem compareDocuments_round_trip_witness:
  "changes_reconstruct (trimDiffChars (str ''abc'') []) (str ''abc'') []
   \<and> concat (map content (leftDiffs (compareDocuments trimDiffChars (str ''abc'') []))) = str ''abc''
   \<and> concat (map content (rightDiffs (compareDocuments trimDiffChars (str ''abc'') []))) = []
   \<and> set (map ptype (leftDiffs (compareDocuments trimDiffChars (str ''abc'') []))) \<subseteq> {TypeEqual, TypeDelete}
   \<and> set (map ptype (rightDiffs (compareDocuments trimDiffChars (str ''abc'') []))) \<subseteq> {TypeEqual, TypeInsert}"
proof -
  have h: "changes_reconstruct (trimDiffChars (str ''abc'') []) (str ''abc'') []"
    by (simp add: changes_reconstruct_def trimDiffChars_def trimDiff_def nonEmptyDiff_def
        commonSuffix_def Let_def str_def)
  show ?thesis
    using h compareDocuments_round_trip [of trimDiffChars "str ''abc''" "[]"] by blast
qed

section \<open>Bounds of the similarity\<close>

lemma unchangedLength_foldl:
  "foldl (\<lambda>n d. if fst d = DIFF_EQUAL then n + length (snd d) else n) k ds =
     k + sum_list (map (length \<circ> snd) (filter (\<lambda>d. fst d = DIFF_EQUAL) ds))"
  by (induction ds arbitrary: k) simp_all

lemma unchangedLength_sum:
  "unchangedLength ds = sum_list (map (length \<circ> snd) (filter (\<lambda>d. fst d = DIFF_EQUAL) ds))"
  by (simp add: unchangedLength_def unchangedLength_foldl)

lemma equal_spans_le_left:
  "sum_list (map (length \<circ> snd) (filter (\<lambda>d. fst d = DIFF_EQUAL) ds))
     \<le> length (concat (map snd (filter (\<lambda>d. fst d \<noteq> DIFF_INSERT) ds)))"
  by (induction ds) auto

lemma unchangedLength_le_left:
  "diffs_reconstruct ds a b \<Longrightarrow> unchangedLength ds \<le> length a"
  using equal_spans_le_left [of ds] by (auto simp add: diffs_reconstruct_def unchangedLength_sum)

text \<open>
  C7. \<open>getTextSimilarity\<close> is 1 for two empty strings and 0 when exactly one is empty;
  for two non-empty strings it is the summed length of the equal spans of \<open>diff_main\<close>
  divided by the larger of the two lengths. When the result of \<open>diff_main\<close> reconstructs
  its inputs the similarity lies between 0 and 1, and when \<open>diff_main\<close> answers a
  non-empty string compared with itself by the single equal span (as \<open>diff-match-patch\<close>
  does) the similarity of the string with itself is 1.
\<close>

theorem getTextSimilarity_spec:
  "getTextSimilarity dm [] [] = 1
   \<and> (a \<noteq> [] \<longrightarrow> getTextSimilarity dm a [] = 0 \<and> getTextSimilarity dm [] a = 0)
   \<and> (a \<noteq> [] \<and> b \<noteq> [] \<longrightarrow>
        getTextSimilarity dm a b =
          of_nat (sum_list (map (length \<circ> snd) (filter (\<lambda>d. fst d = DIFF_EQUAL) (dm a b))))
            / of_nat (max (length a) (length b)))
   \<and> (diffs_reconstruct (dm a b) a b \<longrightarrow>
        0 \<le> getTextSimilarity dm a b \<and> getTextSimilarity dm a b \<le> 1)
   \<and> (a \<noteq> [] \<and> dm a a = [(DIFF_EQUAL, a)] \<longrightarrow> getTextSimilarity dm a a = 1)"
proof (intro conjI impI)
  show "getTextSimilarity dm [] [] = 1"
    by (simp add: getTextSimilarity_def)
next
  assume "a \<noteq> []"
  then show "getTextSimilarity dm a [] = 0" "getTextSimilarity dm [] a = 0"
    by (simp_all add: getTextSimilarity_def)
next
  assume "a \<noteq> [] \<and> b \<noteq> []"
  then show "getTextSimilarity dm a b =
          of_nat (sum_list (map (length \<circ> snd) (filter (\<lambda>d. fst d = DIFF_EQUAL) (dm a b))))
            / of_nat (max (length a) (length b))"
    by (simp add: getTextSimilarity_def Let_def unchangedLength_sum)
next
  assume "diffs_reconstruct (dm a b) a b"
  then show "getTextSimilarity dm a b \<le> 1"
    using unchangedLength_le_left [of "dm a b" a b]
    by (auto simp add: getTextSimilarity_def Let_def)
next
  show "0 \<le> getTextSimilarity dm a b"
    by (simp add: getTextSimilarity_def Let_def)
next
  assume "a \<noteq> [] \<and> dm a a = [(DIFF_EQUAL, a)]"
  then show "getTextSimilarity dm a a = 1"
    by (simp add: getTextSimilarity_def Let_def unchangedLength_def)
qed

theorem getTextSimilarity_spec_witness:
  "(str ''kitten'') \<noteq> [] \<and> (str ''kitchen'') \<noteq> []
   \<and> diffs_reconstruct (trimDiff (str ''kitten'') (str ''kitchen'')) (str ''kitten'') (str ''kitchen'')
   \<and> trimDiff (str ''kitten'') (str ''kitten'') = [(DIFF_EQUAL, (str ''kitten''))]
   \<and> getTextSimilarity trimDiff (str ''kitten'') (str ''kitchen'') = 5 / 7
   \<and> 0 \<le> getTextSimilarity trimDiff (str ''kitten'') (str ''kitchen'')
   \<and> getTextSimilarity trimDiff (str ''kitten'') (str ''kitchen'') \<le> 1
   \<and> getTextSimilarity trimDiff (str ''kitten'') (str ''kitten'') = 1"
proof -
  have d: "trimDiff (str ''kitten'') (str ''kitchen'') =
      [(DIFF_EQUAL, (str ''kit'')), (DIFF_DELETE, (str ''t'')), (DIFF_INSERT, (str ''ch'')), (DIFF_EQUAL, (str ''en''))]"
    by (simp add: trimDiff_def nonEmptyDiff_def commonSuffix_def Let_def str_def)
  have h1: "diffs_reconstruct (trimDiff (str ''kitten'') (str ''kitchen'')) (str ''kitten'') (str ''kitchen'')"
    unfolding diffs_reconstruct_def d by (simp add: str_def)
  have h2: "trimDiff (str ''kitten'') (str ''kitten'') = [(DIFF_EQUAL, (str ''kitten''))]"
    by (simp add: trimDiff_def nonEmptyDiff_def str_def)
  have v: "getTextSimilarity trimDiff (str ''kitten'') (str ''kitchen'') = 5 / 7"
    using getTextSimilarity_spec [of trimDiff "str ''kitten''" "str ''kitchen''"] by (simp add: d)
  show ?thesis
    using h1 h2 v getTextSimilarity_spec [of trimDiff "str ''kitten''" "str ''kitchen''"]
      getTextSimilarity_spec [of trimDiff "str ''kitten''" "str ''kitten''"]
    by simp
qed

section \<open>The passes of alignBlocks\<close>

lemma findIndexFrom_first:
  "n < length xs \<Longrightarrow> P (xs ! n) (i + n) \<Longrightarrow> (\<forall>j<n. \<not> P (xs ! j) (i + j)) \<Longrightarrow>
   findIndexFrom i P xs = Some (i + n)"
proof (induction xs arbitrary: i n)
  case Nil
  then show ?case by simp
next
  case (Cons x xs)
  show ?case
  proof (cases n)
    case 0
    with Cons.prems show ?thesis by simp
  next
    case (Suc m)
    have "\<not> P x i" using Cons.prems(3) Suc by force
    moreover have "findIndexFrom (Suc i) P xs = Some (Suc i + m)"
    proof (rule Cons.IH)
      show "m < length xs" using Cons.prems(1) Suc by simp
      show "P (xs ! m) (Suc i + m)" using Cons.prems(2) Suc by simp
      show "\<forall>j<m. \<not> P (xs ! j) (Suc i + j)"
      proof (intro allI impI)
        fix j assume "j < m"
        then have "\<not> P ((x # xs) ! Suc j) (i + Suc j)" using Cons.prems(3) Suc by blast
        then show "\<not> P (xs ! j) (Suc i + j)" by simp
      qed
    qed
    ultimately show ?thesis using Suc by simp
  qed
qed

lemma findIndex_first:
  "n < length xs \<Longrightarrow> P (xs ! n) n \<Longrightarrow> (\<forall>j<n. \<not> P (xs ! j) j) \<Longrightarrow> findIndex P xs = Some n"
  using findIndexFrom_first [of n xs P 0] by (simp add: findIndex_def)

lemma findIndexFrom_Some:
  "findIndexFrom i P xs = Some k \<Longrightarrow>
   \<exists>n<length xs. k = i + n \<and> P (xs ! n) k \<and> (\<forall>j<n. \<not> P (xs ! j) (i + j))"
proof (induction xs arbitrary: i)
  case Nil
  then show ?case by simp
next
  case (Cons x xs)
  show ?case
  proof (cases "P x i")
    case True
    with Cons.prems have "k = i" by simp
    with True show ?thesis by (intro exI [of _ 0]) simp
  next
    case False
    with Cons.prems have "findIndexFrom (Suc i) P xs = Some k" by simp
    from Cons.IH [OF this] obtain n where n: "n < length xs" "k = Suc i + n" "P (xs ! n) k"
      "\<forall>j<n. \<not> P (xs ! j) (Suc i + j)" by blast
    have "\<forall>j<Suc n. \<not> P ((x # xs) ! j) (i + j)"
    proof (intro allI impI)
      fix j assume "j < Suc n"
      then show "\<not> P ((x # xs) ! j) (i + j)"
        using False n(4) by (cases j) auto
    qed
    with n show ?thesis by (intro exI [of _ "Suc n"]) simp
  qed
qed

lemma findIndex_Some:
  "findIndex P xs = Some k \<Longrightarrow> k < length xs \<and> P (xs ! k) k \<and> (\<forall>j<k. \<not> P (xs ! j) j)"
  using findIndexFrom_Some [of 0 P xs k] by (auto simp add: findIndex_def)










section \<open>Identical documents\<close>

lemma areTextsEqual_refl: "areTextsEqual lc t t"
  by (simp add: areTextsEqual_def)

lemma exactStep_self:
  assumes "n < length X"
  shows "exactStep lc X (selfState X n) (n, X ! n) = selfState X (Suc n)"
proof -
  have "findIndex (exactCandidate lc (selfState X n) (X ! n)) X = Some n"
    using assms by (intro findIndex_first) (simp_all add: exactCandidate_def selfState_def areTextsEqual_refl)
  then show ?thesis
    using assms
    by (simp add: exactStep_def matched_def selfState_def take_Suc_conv_app_nth lessThan_Suc selfEntry_def)
qed

lemma exactPass_self_from:
  "n \<le> length X \<Longrightarrow>
   foldl (exactStep lc X) (selfState X n) (enumerate n (drop n X)) = selfState X (length X)"
proof (induction "length X - n" arbitrary: n)
  case 0
  then show ?case by simp
next
  case (Suc k)
  then have n: "n < length X" by simp
  have "drop n X = X ! n # drop (Suc n) X"
    using n by (simp add: Cons_nth_drop_Suc)
  then have "foldl (exactStep lc X) (selfState X n) (enumerate n (drop n X)) =
      foldl (exactStep lc X) (exactStep lc X (selfState X n) (n, X ! n))
        (enumerate (Suc n) (drop (Suc n) X))"
    by simp
  also have "\<dots> = foldl (exactStep lc X) (selfState X (Suc n)) (enumerate (Suc n) (drop (Suc n) X))"
    by (simp add: exactStep_self [OF n])
  also have "\<dots> = selfState X (length X)"
    using Suc.hyps(2) n by (intro Suc.hyps(1)) simp_all
  finally show ?case .
qed

lemma similarPass_all_used:
  "(\<forall>p \<in> set ps. fst p \<in> leftUsed st) \<Longrightarrow> foldl (similarStep dm R) st ps = st"
  by (induction ps) (auto simp add: similarStep_def)

lemma matchPasses_self: "matchPasses lc dm X X = selfState X (length X)"
proof -
  have e: "foldl (exactStep lc X) \<lparr>alignment = [], leftUsed = {}, rightUsed = {}\<rparr> (enumerate 0 X)
       = selfState X (length X)"
    using exactPass_self_from [of 0 X lc] by (simp add: selfState_def)
  have "\<forall>p \<in> set (enumerate 0 X). fst p \<in> leftUsed (selfState X (length X))"
    by (auto simp add: selfState_def in_set_enumerate_eq)
  then show ?thesis
    unfolding matchPasses_def e by (rule similarPass_all_used)
qed

lemma removedEntries_all_used: "removedEntries {..<length X} X = []"
  by (auto simp add: removedEntries_def filter_empty_conv in_set_enumerate_eq)

lemma addedEntries_all_used: "addedEntries {..<length X} X = []"
  by (auto simp add: addedEntries_def filter_empty_conv in_set_enumerate_eq)

lemma alignBlocks_self:
  "alignBlocks lc dm X X = sort_key entryIndex (map selfEntry X)"
  by (simp add: alignBlocks_def matchPasses_self selfState_def removedEntries_all_used
      addedEntries_all_used)

lemma blockSummary_equal_only:
  "list_all (\<lambda>e. etype e = Equal) al \<Longrightarrow> foldl blockSummaryStep acc al = acc"
  by (induction al arbitrary: acc) (simp_all add: blockSummaryStep_def split: prod.splits)

lemma performComparison_same:
  "performComparison d p h h = Inr (originalContent h h)"
  by (simp add: performComparison_def tryCatch_def comparisonAttempt_def split: sum.splits)

lemma compareHtmlDocumentsBlocks_same:
  "compareHtmlDocumentsBlocks host sg h h = Inr (originalContent h h)"
  by (simp add: compareHtmlDocumentsBlocks_def tryCatch_def blockComparisonAttempt_def
      split: sum.splits)

text \<open>
  C2. Aligning a block list with itself pairs every block with itself as \<open>Equal\<close>, so
  the block counters are both 0 (hence \<open>changes = 0\<close>). Comparing a document with itself
  returns both inputs verbatim with the all-zero summary and the empty report: the
  promise of the asynchronous \<open>compareHtmlDocuments\<close> resolves to that object on every
  host that has a global \<open>window\<close>, and the synchronous one returns it on every host. More
  generally, as soon as the trimmed plain texts of the two documents are equal, that
  object is the result and the comparison pipeline is not run.
\<close>

theorem identical_documents:
  "alignBlocks lc dm X X =
     sort_key entryIndex (map (\<lambda>b. \<lparr>left = Some b, right = Some b, etype = Equal\<rparr>) X)
   \<and> list_all (\<lambda>e. etype e = Equal) (alignBlocks lc dm X X)
   \<and> blockSummary (alignBlocks lc dm X X) = (0, 0)
   \<and> (hasWindow host \<longrightarrow>
        compareHtmlDocuments host p h h =
          Inr \<lparr>leftDiffs = [\<lparr>ptype = TypeEqual, content = h\<rparr>],
               rightDiffs = [\<lparr>ptype = TypeEqual, content = h\<rparr>],
               summary = \<lparr>additions = 0, deletions = 0, changes = 0\<rparr>,
               detailed = \<lparr>lines = [], tables = [], images = []\<rparr>\<rparr>)
   \<and> compareHtmlDocumentsBlocks host sg h h =
       Inr \<lparr>leftDiffs = [\<lparr>ptype = TypeEqual, content = h\<rparr>],
            rightDiffs = [\<lparr>ptype = TypeEqual, content = h\<rparr>],
            summary = \<lparr>additions = 0, deletions = 0, changes = 0\<rparr>,
            detailed = \<lparr>lines = [], tables = [], images = []\<rparr>\<rparr>
   \<and> (extractPlainTextIn (document host) l = Inr lt
        \<and> extractPlainTextIn (document host) r = Inr rt \<and> trim lt = trim rt
        \<longrightarrow> (hasWindow host \<longrightarrow>
               compareHtmlDocuments host p l r =
                 Inr \<lparr>leftDiffs = [\<lparr>ptype = TypeEqual, content = l\<rparr>],
                      rightDiffs = [\<lparr>ptype = TypeEqual, content = r\<rparr>],
                      summary = \<lparr>additions = 0, deletions = 0, changes = 0\<rparr>,
                      detailed = \<lparr>lines = [], tables = [], images = []\<rparr>\<rparr>)
            \<and> compareHtmlDocumentsBlocks host sg l r =
                 Inr \<lparr>leftDiffs = [\<lparr>ptype = TypeEqual, content = l\<rparr>],
                      rightDiffs = [\<lparr>ptype = TypeEqual, content = r\<rparr>],
                      summary = \<lparr>additions = 0, deletions = 0, changes = 0\<rparr>,
                      detailed = \<lparr>lines = [], tables = [], images = []\<rparr>\<rparr>)"
proof -
  have a: "alignBlocks lc dm X X = sort_key entryIndex (map selfEntry X)"
    by (rule alignBlocks_self)
  have b: "list_all (\<lambda>e. etype e = Equal) (alignBlocks lc dm X X)"
    unfolding a list_all_iff by (auto simp add: selfEntry_def)
  have c: "blockSummary (alignBlocks lc dm X X) = (0, 0)"
    unfolding blockSummary_def by (rule blockSummary_equal_only [OF b])
  have d: "hasWindow host \<longrightarrow> compareHtmlDocuments host p h h = Inr (originalContent h h)"
    by (simp add: compareHtmlDocuments_def performComparison_same)
  have e: "compareHtmlDocumentsBlocks host sg h h = Inr (originalContent h h)"
    by (rule compareHtmlDocumentsBlocks_same)
  have f: "extractPlainTextIn (document host) l = Inr lt
        \<and> extractPlainTextIn (document host) r = Inr rt \<and> trim lt = trim rt
      \<longrightarrow> (hasWindow host \<longrightarrow> compareHtmlDocuments host p l r = Inr (originalContent l r))
        \<and> compareHtmlDocumentsBlocks host sg l r = Inr (originalContent l r)"
    by (simp add: compareHtmlDocuments_def performComparison_def tryCatch_def comparisonAttempt_def
        compareHtmlDocumentsBlocks_def blockComparisonAttempt_def)
  from a b c d e f show ?thesis
    by (simp add: selfEntry_def [abs_def] originalContent_def)
qed

theorem identical_documents_witness:
  "hasWindow \<lparr>hasWindow = True,
      document = Some (\<lambda>h. Some (if h = str ''<p>Hello</p>'' then str ''Hello'' else str ''Hello'' @ [160]))\<rparr>
   \<and> extractPlainTextIn
        (Some (\<lambda>h. Some (if h = str ''<p>Hello</p>'' then str ''Hello'' else str ''Hello'' @ [160])))
        (str ''<p>Hello</p>'') = Inr (str ''Hello'')
   \<and> extractPlainTextIn
        (Some (\<lambda>h. Some (if h = str ''<p>Hello</p>'' then str ''Hello'' else str ''Hello'' @ [160])))
        (str ''<p><b>Hello</b>&nbsp;</p>'') = Inr (str ''Hello'' @ [160])
   \<and> trim (str ''Hello'') = trim (str ''Hello'' @ [160])
   \<and> compareHtmlDocuments
        \<lparr>hasWindow = True,
         document = Some (\<lambda>h. Some (if h = str ''<p>Hello</p>'' then str ''Hello'' else str ''Hello'' @ [160]))\<rparr>
        (\<lambda>l r. Inl (Thrown ''not run'')) (str ''<p>Hello</p>'') (str ''<p><b>Hello</b>&nbsp;</p>'') =
       Inr \<lparr>leftDiffs = [\<lparr>ptype = TypeEqual, content = str ''<p>Hello</p>''\<rparr>],
            rightDiffs = [\<lparr>ptype = TypeEqual, content = str ''<p><b>Hello</b>&nbsp;</p>''\<rparr>],
            summary = \<lparr>additions = 0, deletions = 0, changes = 0\<rparr>,
            detailed = \<lparr>lines = [], tables = [], images = []\<rparr>\<rparr>
   \<and> list_all (\<lambda>e. etype e = Equal)
        (alignBlocks asciiLower trimDiff
           [\<lparr>btext = str ''Hello'', tagName = str ''p'', index = 0\<rparr>,
            \<lparr>btext = str ''Hello'', tagName = str ''p'', index = 1\<rparr>]
           [\<lparr>btext = str ''Hello'', tagName = str ''p'', index = 0\<rparr>,
            \<lparr>btext = str ''Hello'', tagName = str ''p'', index = 1\<rparr>])"
proof -
  let ?d = "Some (\<lambda>h. Some (if h = str ''<p>Hello</p>'' then str ''Hello'' else str ''Hello'' @ [160]))"
  let ?host = "\<lparr>hasWindow = True, document = ?d\<rparr>"
  let ?p = "\<lambda>l r. Inl (Thrown ''not run'') :: error + html_comparison"
  let ?X = "[\<lparr>btext = str ''Hello'', tagName = str ''p'', index = 0\<rparr>,
            \<lparr>btext = str ''Hello'', tagName = str ''p'', index = 1\<rparr>]"
  have w: "hasWindow ?host" by simp
  have h1: "extractPlainTextIn ?d (str ''<p>Hello</p>'') = Inr (str ''Hello'')"
    by (simp add: extractPlainTextIn_def extractPlainText_def)
  have h2: "extractPlainTextIn ?d (str ''<p><b>Hello</b>&nbsp;</p>'') = Inr (str ''Hello'' @ [160])"
    by (simp add: extractPlainTextIn_def extractPlainText_def str_def)
  have h3: "trim (str ''Hello'') = trim (str ''Hello'' @ [160])"
    by (simp add: trim_def isWhiteSpace_def str_def)
  note t = identical_documents [of asciiLower trimDiff ?X ?host ?p _ _
      "str ''<p>Hello</p>''" "str ''Hello''" "str ''<p><b>Hello</b>&nbsp;</p>''" "str ''Hello'' @ [160]"]
  have dh1: "extractPlainTextIn (document ?host) (str ''<p>Hello</p>'') = Inr (str ''Hello'')"
    using h1 by simp
  have dh2: "extractPlainTextIn (document ?host) (str ''<p><b>Hello</b>&nbsp;</p>'')
      = Inr (str ''Hello'' @ [160])"
    using h2 by simp
  have c1: "list_all (\<lambda>e. etype e = Equal) (alignBlocks asciiLower trimDiff ?X ?X)"
    by (rule t [THEN conjunct2, THEN conjunct1])
  have c2: "compareHtmlDocuments ?host ?p (str ''<p>Hello</p>'') (str ''<p><b>Hello</b>&nbsp;</p>'') =
       Inr \<lparr>leftDiffs = [\<lparr>ptype = TypeEqual, content = str ''<p>Hello</p>''\<rparr>],
            rightDiffs = [\<lparr>ptype = TypeEqual, content = str ''<p><b>Hello</b>&nbsp;</p>''\<rparr>],
            summary = \<lparr>additions = 0, deletions = 0, changes = 0\<rparr>,
            detailed = \<lparr>lines = [], tables = [], images = []\<rparr>\<rparr>"
    by (rule t [THEN conjunct2, THEN conjunct2, THEN conjunct2, THEN conjunct2, THEN conjunct2,
          THEN mp, OF conjI [OF dh1 conjI [OF dh2 h3]], THEN conjunct1, THEN mp, OF w])
  show ?thesis
    by (intro conjI w h1 h2 h3 c2 c1)
qed

section \<open>Errors of the pipeline\<close>








section \<open>Invariants of the alignment\<close>

lemma map_filter_append: "List.map_filter f (xs @ ys) = List.map_filter f xs @ List.map_filter f ys"
  by (simp add: List.map_filter_def)

lemma mset_map_filter:
  "mset (List.map_filter f xs) = image_mset (the \<circ> f) (filter_mset (\<lambda>x. f x \<noteq> None) (mset xs))"
  by (simp add: List.map_filter_def)

lemma matchInv_matched:
  assumes "matchInv L R st" "i < length L" "i \<notin> leftUsed st" "j < length R" "j \<notin> rightUsed st"
    and "t = Equal \<or> t = Modified"
  shows "matchInv L R (matched st i (L ! i) j (R ! j) t)"
proof -
  have fl: "finite (leftUsed st)" and fr: "finite (rightUsed st)"
    using assms(1) by (auto simp add: matchInv_def intro: finite_subset)
  show ?thesis
    using assms fl fr
    by (auto simp add: matchInv_def matched_def map_filter_append)
qed

lemma matchInv_exactStep:
  assumes "matchInv L R st" "i < length L" "i \<notin> leftUsed st"
  shows "matchInv L R (exactStep lc R st (i, L ! i))"
proof (cases "findIndex (exactCandidate lc st (L ! i)) R")
  case None
  then show ?thesis using assms(1) by (simp add: exactStep_def)
next
  case (Some j)
  from findIndex_Some [OF Some] have "j < length R" "j \<notin> rightUsed st"
    by (simp_all add: exactCandidate_def)
  then show ?thesis
    using Some matchInv_matched [OF assms, of j Equal] by (simp add: exactStep_def)
qed

lemma matchInv_similarStep:
  assumes "matchInv L R st" "i < length L"
  shows "matchInv L R (similarStep dm R st (i, L ! i))"
proof (cases "i \<in> leftUsed st")
  case True
  then show ?thesis using assms(1) by (simp add: similarStep_def)
next
  case False
  show ?thesis
  proof (cases "findIndex (similarCandidate dm st (L ! i)) R")
    case None
    then show ?thesis using assms(1) False by (simp add: similarStep_def)
  next
    case (Some j)
    from findIndex_Some [OF Some] have "j < length R" "j \<notin> rightUsed st"
      by (simp_all add: similarCandidate_def)
    then show ?thesis
      using Some False matchInv_matched [OF assms False, of j Modified] by (simp add: similarStep_def)
  qed
qed

lemma leftUsed_exactStep: "leftUsed (exactStep lc R st (i, b)) \<subseteq> insert i (leftUsed st)"
  by (auto simp add: exactStep_def matched_def split: option.splits)

lemma foldl_enumerate_invariant:
  assumes step: "\<And>i st. i < length L \<Longrightarrow> I i st \<Longrightarrow> I (Suc i) (f st (i, L ! i))"
  shows "n \<le> length L \<Longrightarrow> I n st \<Longrightarrow> I (length L) (foldl f st (enumerate n (drop n L)))"
proof (induction "length L - n" arbitrary: n st)
  case 0
  then show ?case by simp
next
  case (Suc k)
  then have n: "n < length L" by simp
  have d: "drop n L = L ! n # drop (Suc n) L"
    using n by (simp add: Cons_nth_drop_Suc)
  have "I (length L) (foldl f (f st (n, L ! n)) (enumerate (Suc n) (drop (Suc n) L)))"
    using Suc.hyps(2) n step [OF n Suc.prems(2)] by (intro Suc.hyps(1)) simp_all
  then show ?case by (simp add: d)
qed

lemma matchInv_matchPasses: "matchInv L R (matchPasses lc dm L R)"
proof -
  let ?st0 = "\<lparr>alignment = [], leftUsed = {}, rightUsed = {}\<rparr>"
  let ?st1 = "foldl (exactStep lc R) ?st0 (enumerate 0 L)"
  have "matchInv L R ?st0 \<and> leftUsed ?st0 \<subseteq> {..<0}"
    by (simp add: matchInv_def)
  then have "matchInv L R (foldl (exactStep lc R) ?st0 (enumerate 0 (drop 0 L)))
      \<and> leftUsed (foldl (exactStep lc R) ?st0 (enumerate 0 (drop 0 L))) \<subseteq> {..<length L}"
  proof (intro foldl_enumerate_invariant
      [where I = "\<lambda>i st. matchInv L R st \<and> leftUsed st \<subseteq> {..<i}" and n = 0])
    fix i st
    assume i: "i < length L" and I: "matchInv L R st \<and> leftUsed st \<subseteq> {..<i}"
    then have "i \<notin> leftUsed st" by auto
    with i I have "matchInv L R (exactStep lc R st (i, L ! i))"
      by (intro matchInv_exactStep) simp_all
    moreover have "leftUsed (exactStep lc R st (i, L ! i)) \<subseteq> {..<Suc i}"
      using leftUsed_exactStep [of lc R st i "L ! i"] I by auto
    ultimately show "matchInv L R (exactStep lc R st (i, L ! i))
        \<and> leftUsed (exactStep lc R st (i, L ! i)) \<subseteq> {..<Suc i}" ..
  qed simp_all
  then have 1: "matchInv L R ?st1" by simp
  have "matchInv L R (foldl (similarStep dm R) ?st1 (enumerate 0 (drop 0 L)))"
    using 1
    by (intro foldl_enumerate_invariant [where I = "\<lambda>i st. matchInv L R st" and n = 0])
       (simp_all add: matchInv_similarStep)
  then show ?thesis by (simp add: matchPasses_def)
qed

lemma enumerate_nth: "enumerate 0 xs = map (\<lambda>i. (i, xs ! i)) [0..<length xs]"
  by (rule nth_equalityI) (simp_all add: nth_enumerate_eq)

lemma unused_blocks_mset:
  assumes "U \<subseteq> {..<length xs}"
  shows "image_mset (nth xs) (mset_set U)
           + mset (map snd (filter (\<lambda>p. fst p \<notin> U) (enumerate 0 xs))) = mset xs"
proof -
  let ?M = "mset_set {0..<length xs}"
  have "{i \<in> {0..<length xs}. i \<in> U} = U" using assms by auto
  then have u: "mset_set U = filter_mset (\<lambda>i. i \<in> U) ?M" by simp
  have "map snd (filter (\<lambda>p. fst p \<notin> U) (enumerate 0 xs))
      = map (nth xs) (filter (\<lambda>i. i \<notin> U) [0..<length xs])"
    by (simp add: enumerate_nth filter_map comp_def)
  then have r: "mset (map snd (filter (\<lambda>p. fst p \<notin> U) (enumerate 0 xs)))
      = image_mset (nth xs) (filter_mset (\<lambda>i. i \<notin> U) ?M)"
    by simp
  have "image_mset (nth xs) (filter_mset (\<lambda>i. i \<in> U) ?M)
          + image_mset (nth xs) (filter_mset (\<lambda>i. i \<notin> U) ?M) = image_mset (nth xs) ?M"
    by (metis image_mset_union multiset_partition)
  also have "\<dots> = mset (map (nth xs) [0..<length xs])" by simp
  also have "\<dots> = mset xs" by (simp add: map_nth)
  finally show ?thesis by (simp only: u r)
qed

lemma map_filter_left_removed:
  "List.map_filter left (removedEntries U xs) = map snd (filter (\<lambda>p. fst p \<notin> U) (enumerate 0 xs))"
  by (simp add: removedEntries_def List.map_filter_def comp_def)

lemma map_filter_right_removed: "List.map_filter right (removedEntries U xs) = []"
  by (simp add: removedEntries_def List.map_filter_def filter_empty_conv)

lemma map_filter_right_added:
  "List.map_filter right (addedEntries U xs) = map snd (filter (\<lambda>p. fst p \<notin> U) (enumerate 0 xs))"
  by (simp add: addedEntries_def List.map_filter_def comp_def)

lemma map_filter_left_added: "List.map_filter left (addedEntries U xs) = []"
  by (simp add: addedEntries_def List.map_filter_def filter_empty_conv)

lemma alignBlocks_unsorted: "alignBlocks lc dm L R = sort_key entryIndex (unsorted lc dm L R)"
  by (simp add: alignBlocks_def unsorted_def Let_def)

lemma unsorted_lefts: "mset (List.map_filter left (unsorted lc dm L R)) = mset L"
  using matchInv_matchPasses [of L R lc dm]
    unused_blocks_mset [of "leftUsed (matchPasses lc dm L R)" L]
  by (simp add: unsorted_def map_filter_append map_filter_left_removed map_filter_left_added
      matchInv_def)

lemma unsorted_rights: "mset (List.map_filter right (unsorted lc dm L R)) = mset R"
  using matchInv_matchPasses [of L R lc dm]
    unused_blocks_mset [of "rightUsed (matchPasses lc dm L R)" R]
  by (simp add: unsorted_def map_filter_append map_filter_right_removed map_filter_right_added
      matchInv_def)

lemma unsorted_kinds:
  assumes "e \<in> set (unsorted lc dm L R)"
  shows "(etype e = Equal \<or> etype e = Modified) \<and> left e \<noteq> None \<and> right e \<noteq> None
       \<or> etype e = Removed \<and> left e \<noteq> None \<and> right e = None
       \<or> etype e = Added \<and> left e = None \<and> right e \<noteq> None"
  using assms matchInv_matchPasses [of L R lc dm]
  by (auto simp add: unsorted_def matchInv_def removedEntries_def addedEntries_def)

lemma unsorted_left_first:
  "\<exists>xs ys. filter P (unsorted lc dm L R) = xs @ ys
      \<and> (\<forall>e \<in> set xs. left e \<noteq> None) \<and> (\<forall>e \<in> set ys. left e = None)"
proof (intro exI conjI)
  let ?st = "matchPasses lc dm L R"
  show "filter P (unsorted lc dm L R) =
      filter P (alignment ?st @ removedEntries (leftUsed ?st) L)
        @ filter P (addedEntries (rightUsed ?st) R)"
    by (simp add: unsorted_def)
  show "\<forall>e \<in> set (filter P (alignment ?st @ removedEntries (leftUsed ?st) L)). left e \<noteq> None"
    using matchInv_matchPasses [of L R lc dm]
    by (auto simp add: matchInv_def removedEntries_def)
  show "\<forall>e \<in> set (filter P (addedEntries (rightUsed ?st) R)). left e = None"
    by (auto simp add: addedEntries_def)
qed

text \<open>
  C5. In every alignment that \<open>alignBlocks\<close> returns: exactly one of \<open>left\<close> and
  \<open>right\<close> is null if and only if the entry is \<open>Added\<close> or \<open>Removed\<close>, and both are
  present in an \<open>Equal\<close> or \<open>Modified\<close> entry; the left components of the entries are
  the left blocks, each once, and the right components are the right blocks, each once; the
  entries are sorted by their position index (the index of the left block when there is
  one, else of the right block), and among the entries of one position index those with a
  left block come before those with a right block only.
\<close>

theorem alignBlocks_invariants:
  "(\<forall>e \<in> set (alignBlocks lc dm L R).
       ((left e = None) \<noteq> (right e = None)) = (etype e = Added \<or> etype e = Removed)
     \<and> (etype e = Equal \<or> etype e = Modified \<longrightarrow> left e \<noteq> None \<and> right e \<noteq> None)
     \<and> (etype e = Removed \<longrightarrow> right e = None) \<and> (etype e = Added \<longrightarrow> left e = None))
   \<and> mset (List.map_filter left (alignBlocks lc dm L R)) = mset L
   \<and> mset (List.map_filter right (alignBlocks lc dm L R)) = mset R
   \<and> sorted (map entryIndex (alignBlocks lc dm L R))
   \<and> (\<forall>k. \<exists>xs ys. filter (\<lambda>e. entryIndex e = k) (alignBlocks lc dm L R) = xs @ ys
          \<and> (\<forall>e \<in> set xs. left e \<noteq> None) \<and> (\<forall>e \<in> set ys. left e = None))"
proof (intro conjI ballI allI)
  fix e assume "e \<in> set (alignBlocks lc dm L R)"
  then have e: "e \<in> set (unsorted lc dm L R)" by (simp add: alignBlocks_unsorted)
  from unsorted_kinds [OF e]
  show "((left e = None) \<noteq> (right e = None)) = (etype e = Added \<or> etype e = Removed)"
    and "etype e = Equal \<or> etype e = Modified \<longrightarrow> left e \<noteq> None \<and> right e \<noteq> None"
    and "etype e = Removed \<longrightarrow> right e = None" and "etype e = Added \<longrightarrow> left e = None"
    by auto
next
  show "mset (List.map_filter left (alignBlocks lc dm L R)) = mset L"
    using unsorted_lefts [of lc dm L R] by (simp add: alignBlocks_unsorted mset_map_filter)
  show "mset (List.map_filter right (alignBlocks lc dm L R)) = mset R"
    using unsorted_rights [of lc dm L R] by (simp add: alignBlocks_unsorted mset_map_filter)
  show "sorted (map entryIndex (alignBlocks lc dm L R))"
    by (simp add: alignBlocks_unsorted)
next
  fix k
  show "\<exists>xs ys. filter (\<lambda>e. entryIndex e = k) (alignBlocks lc dm L R) = xs @ ys
          \<and> (\<forall>e \<in> set xs. left e \<noteq> None) \<and> (\<forall>e \<in> set ys. left e = None)"
    unfolding alignBlocks_unsorted sort_key_stable by (rule unsorted_left_first)
qed

theorem alignBlocks_invariants_witness:
  "(alignBlocks asciiLower trimDiff
     [\<lparr>btext = str ''alpha'', tagName = str ''p'', index = 0\<rparr>,
      \<lparr>btext = str ''beta'', tagName = str ''p'', index = 1\<rparr>]
     [\<lparr>btext = str ''gamma'', tagName = str ''h1'', index = 0\<rparr>,
      \<lparr>btext = str ''Alpha'', tagName = str ''p'', index = 1\<rparr>])
   = [\<lparr>left = Some \<lparr>btext = str ''alpha'', tagName = str ''p'', index = 0\<rparr>,
       right = Some \<lparr>btext = str ''Alpha'', tagName = str ''p'', index = 1\<rparr>, etype = Equal\<rparr>,
      \<lparr>left = None, right = Some \<lparr>btext = str ''gamma'', tagName = str ''h1'', index = 0\<rparr>,
       etype = Added\<rparr>,
      \<lparr>left = Some \<lparr>btext = str ''beta'', tagName = str ''p'', index = 1\<rparr>, right = None,
       etype = Removed\<rparr>]
   \<and> mset (List.map_filter left (alignBlocks asciiLower trimDiff
     [\<lparr>btext = str ''alpha'', tagName = str ''p'', index = 0\<rparr>,
      \<lparr>btext = str ''beta'', tagName = str ''p'', index = 1\<rparr>]
     [\<lparr>btext = str ''gamma'', tagName = str ''h1'', index = 0\<rparr>,
      \<lparr>btext = str ''Alpha'', tagName = str ''p'', index = 1\<rparr>]))
       = mset [\<lparr>btext = str ''alpha'', tagName = str ''p'', index = 0\<rparr>,
      \<lparr>btext = str ''beta'', tagName = str ''p'', index = 1\<rparr>]
   \<and> mset (List.map_filter right (alignBlocks asciiLower trimDiff
     [\<lparr>btext = str ''alpha'', tagName = str ''p'', index = 0\<rparr>,
      \<lparr>btext = str ''beta'', tagName = str ''p'', index = 1\<rparr>]
     [\<lparr>btext = str ''gamma'', tagName = str ''h1'', index = 0\<rparr>,
      \<lparr>btext = str ''Alpha'', tagName = str ''p'', index = 1\<rparr>]))
       = mset [\<lparr>btext = str ''gamma'', tagName = str ''h1'', index = 0\<rparr>,
      \<lparr>btext = str ''Alpha'', tagName = str ''p'', index = 1\<rparr>]
   \<and> sorted (map entryIndex (alignBlocks asciiLower trimDiff
     [\<lparr>btext = str ''alpha'', tagName = str ''p'', index = 0\<rparr>,
      \<lparr>btext = str ''beta'', tagName = str ''p'', index = 1\<rparr>]
     [\<lparr>btext = str ''gamma'', tagName = str ''h1'', index = 0\<rparr>,
      \<lparr>btext = str ''Alpha'', tagName = str ''p'', index = 1\<rparr>]))"
proof -
  let ?L = "[\<lparr>btext = str ''alpha'', tagName = str ''p'', index = 0\<rparr>,
      \<lparr>btext = str ''beta'', tagName = str ''p'', index = 1\<rparr>]"
  let ?R = "[\<lparr>btext = str ''gamma'', tagName = str ''h1'', index = 0\<rparr>,
      \<lparr>btext = str ''Alpha'', tagName = str ''p'', index = 1\<rparr>]"
  have v: "alignBlocks asciiLower trimDiff ?L ?R
   = [\<lparr>left = Some \<lparr>btext = str ''alpha'', tagName = str ''p'', index = 0\<rparr>,
       right = Some \<lparr>btext = str ''Alpha'', tagName = str ''p'', index = 1\<rparr>, etype = Equal\<rparr>,
      \<lparr>left = None, right = Some \<lparr>btext = str ''gamma'', tagName = str ''h1'', index = 0\<rparr>,
       etype = Added\<rparr>,
      \<lparr>left = Some \<lparr>btext = str ''beta'', tagName = str ''p'', index = 1\<rparr>, right = None,
       etype = Removed\<rparr>]"
    by (simp add: align_eval text_eval diff_eval)
  note inv = alignBlocks_invariants [of asciiLower trimDiff ?L ?R]
  have c2: "mset (List.map_filter left (alignBlocks asciiLower trimDiff ?L ?R)) = mset ?L"
    by (rule inv [THEN conjunct2, THEN conjunct1])
  have c3: "mset (List.map_filter right (alignBlocks asciiLower trimDiff ?L ?R)) = mset ?R"
    by (rule inv [THEN conjunct2, THEN conjunct2, THEN conjunct1])
  have c4: "sorted (map entryIndex (alignBlocks asciiLower trimDiff ?L ?R))"
    by (rule inv [THEN conjunct2, THEN conjunct2, THEN conjunct2, THEN conjunct1])
  show ?thesis
    by (intro conjI v c2 c3 c4)
qed

section \<open>Tables and images in the summary\<close>
















text \<open>
  C6. Two images at the same position with the same \<open>src\<close> and different \<open>alt\<close> texts:
  \<open>performMutualElementComparison\<close> marks both modified and counts one addition and one
  deletion, but \<open>generateDetailedReport\<close> of the same file, which compares \<open>src\<close> only,
  reports the image as unchanged, and \<open>applyMutualImageComparison\<close> of the block pipeline
  counts nothing.
\<close>

theorem image_alt_change_reported_unchanged:
  "images (generateDetailedReport ev
     [\<lparr>element = ImageElement (str ''a.png'') (str ''old''), etext = str ''old'', html = [], eindex = 0,
       etagName = str ''img'', isEmpty = False, isTable = False, isImage = True\<rparr>]
     [\<lparr>element = ImageElement (str ''a.png'') (str ''new''), etext = str ''new'', html = [], eindex = 0,
       etagName = str ''img'', isEmpty = False, isTable = False, isImage = True\<rparr>])
     = [\<lparr>iindex = 1, istatus = UNCHANGED, src = None, replacedFrom = None, replacedTo = None\<rparr>]
   \<and> map highlight (leftProcessed (performMutualElementComparison ev
     [\<lparr>element = ImageElement (str ''a.png'') (str ''old''), etext = str ''old'', html = [], eindex = 0,
       etagName = str ''img'', isEmpty = False, isTable = False, isImage = True\<rparr>]
     [\<lparr>element = ImageElement (str ''a.png'') (str ''new''), etext = str ''new'', html = [], eindex = 0,
       etagName = str ''img'', isEmpty = False, isTable = False, isImage = True\<rparr>])) = [HModified]
   \<and> map highlight (rightProcessed (performMutualElementComparison ev
     [\<lparr>element = ImageElement (str ''a.png'') (str ''old''), etext = str ''old'', html = [], eindex = 0,
       etagName = str ''img'', isEmpty = False, isTable = False, isImage = True\<rparr>]
     [\<lparr>element = ImageElement (str ''a.png'') (str ''new''), etext = str ''new'', html = [], eindex = 0,
       etagName = str ''img'', isEmpty = False, isTable = False, isImage = True\<rparr>])) = [HModified]
   \<and> elementSummary (performMutualElementComparison ev
     [\<lparr>element = ImageElement (str ''a.png'') (str ''old''), etext = str ''old'', html = [], eindex = 0,
       etagName = str ''img'', isEmpty = False, isTable = False, isImage = True\<rparr>]
     [\<lparr>element = ImageElement (str ''a.png'') (str ''new''), etext = str ''new'', html = [], eindex = 0,
       etagName = str ''img'', isEmpty = False, isTable = False, isImage = True\<rparr>])
     = \<lparr>additions = 1, deletions = 1, changes = 2\<rparr>
   \<and> imageSummary [ImageElement (str ''a.png'') (str ''old'')] [ImageElement (str ''a.png'') (str ''new'')] = (0, 0)"
  by (simp add: generateDetailedReport_def performMutualElementComparison_def positions_def
      nthOpt_def optTable_def optImage_def imageEntry_def push_def withHighlight_def
      elementSummary_def imageSummary_def srcAttribute_def str_def)

section \<open>Formatting-only lines\<close>

lemma less_than_not_in_escapeHtml: "60 \<notin> set (escapeHtml t)"
  by (auto simp add: escapeHtml_def escapeChar_def str_def)

lemma no_git_span_in_visibleChars:
  "60 \<notin> set s \<Longrightarrow> \<not> contains (str ''<span class=\"g'' @ rest) (concat (map visibleChar s))"
proof (induction s)
  case Nil
  then show ?case by (simp add: str_def)
next
  case (Cons c s)
  then have IH: "\<not> contains (str ''<span class=\"g'' @ rest) (concat (map visibleChar s))"
    and c: "c \<noteq> 60" by auto
  consider "c = 32" | "c = 9" | "c \<noteq> 32" "c \<noteq> 9" by blast
  then show ?case
  proof cases
    case 1
    then have vc: "visibleChar c = str ''<span class=\"ws\">'' @ middleDot @ str ''</span>''"
      by (simp add: visibleChar_def)
    show ?thesis using IH by (simp add: vc middleDot_def str_def)
  next
    case 2
    then have vc: "visibleChar c = str ''<span class=\"ws\">'' @ rightArrow @ str ''</span>''"
      by (simp add: visibleChar_def)
    show ?thesis using IH by (simp add: vc rightArrow_def str_def)
  next
    case 3
    then have vc: "visibleChar c = [c]"
      by (simp add: visibleChar_def)
    show ?thesis using IH c by (simp add: vc str_def)
  qed
qed

lemma no_git_span_in_plain_markup:
  "\<not> contains ((str ''<span class=\"g'') @ rest) (visibleSpaces (escapeHtml t))"
  unfolding visibleSpaces_def
  by (rule no_git_span_in_visibleChars [OF less_than_not_in_escapeHtml])

lemma areWordsEquivalent_refl: "areWordsEquivalent lc w w"
  by (simp add: areWordsEquivalent_def)

text \<open>
  C9. For a pair of lines of an unchanged part whose texts are identical, where the left
  block is bold, the right block is not and the other formatting attributes agree, the
  report gets one more line: its status is FORMATTING-ONLY, its \<open>formatChanges\<close> are exactly
  \<open>["bold: on \<rightarrow> off"]\<close>, and its markup, the text with escaped HTML and visible
  spaces, contains neither an inline-added nor an inline-removed span.
\<close>

theorem bold_only_change_is_formatting_only:
  assumes "nthOpt leftLines (iL st) = Some l" and "nthOpt rightLines (iR st) = Some r"
    and "ltext l = ltext r"
    and "hasBold (fmt l)" and "\<not> hasBold (fmt r)"
    and "hasItalic (fmt l) = hasItalic (fmt r)" and "hasUnderline (fmt l) = hasUnderline (fmt r)"
    and "fontSize (fmt l) = fontSize (fmt r)" and "textAlign (fmt l) = textAlign (fmt r)"
  shows "rlines (commonLine ev leftLines rightLines st) =
           rlines st @
             [\<lparr>v1 = showNat (cv1 st), v2 = showNat (cv2 st), lstatus = FORMATTING_ONLY,
               diffHtml = visibleSpaces (escapeHtml (ltext l)),
               formatChanges = [str ''bold: on '' @ rightArrow @ str '' off'']\<rparr>]
       \<and> \<not> contains (str ''<span class=\"git-inline-added\">'') (visibleSpaces (escapeHtml (ltext l)))
       \<and> \<not> contains (str ''<span class=\"git-inline-removed\">'') (visibleSpaces (escapeHtml (ltext l)))"
proof -
  have f: "compareFormat (fmt l) (fmt r) = [str ''bold: on '' @ rightArrow @ str '' off'']"
    using assms(4-9) by (simp add: compareFormat_def onOff_def str_def)
  have "rlines (commonLine ev leftLines rightLines st) =
           rlines st @
             [\<lparr>v1 = showNat (cv1 st), v2 = showNat (cv2 st), lstatus = FORMATTING_ONLY,
               diffHtml = visibleSpaces (escapeHtml (ltext l)),
               formatChanges = [str ''bold: on '' @ rightArrow @ str '' off'']\<rparr>]"
    using assms(1-3) areWordsEquivalent_refl [of "str_toLowerCase ev" "ltext r"]
    by (simp add: commonLine_def Let_def f del: showNat.simps)
  moreover have "\<not> contains (str ''<span class=\"git-inline-added\">'') (visibleSpaces (escapeHtml (ltext l)))"
    using no_git_span_in_plain_markup [of "str ''it-inline-added\">''" "ltext l"]
    by (simp add: str_def)
  moreover have "\<not> contains (str ''<span class=\"git-inline-removed\">'') (visibleSpaces (escapeHtml (ltext l)))"
    using no_git_span_in_plain_markup [of "str ''it-inline-removed\">''" "ltext l"]
    by (simp add: str_def)
  ultimately show ?thesis by (intro conjI)
qed

theorem bold_only_change_is_formatting_only_witness:
  "nthOpt [\<lparr>lindex = 0, ltext = str ''Hello world'',
            fmt = \<lparr>hasBold = True, hasItalic = False, hasUnderline = False, fontSize = [],
                   textAlign = []\<rparr>\<rparr>] (iL \<lparr>iL = 0, iR = 0, cv1 = 1, cv2 = 1, rlines = []\<rparr>)
     = Some \<lparr>lindex = 0, ltext = str ''Hello world'',
            fmt = \<lparr>hasBold = True, hasItalic = False, hasUnderline = False, fontSize = [],
                   textAlign = []\<rparr>\<rparr>
   \<and> rlines (commonLine
        \<lparr>domText = (\<lambda>h. Some h), dmp_diff_main = trimDiff, dmp_cleanupSemantic = (\<lambda>ds. ds),
         str_toLowerCase = asciiLower\<rparr>
        [\<lparr>lindex = 0, ltext = str ''Hello world'',
            fmt = \<lparr>hasBold = True, hasItalic = False, hasUnderline = False, fontSize = [],
                   textAlign = []\<rparr>\<rparr>]
        [\<lparr>lindex = 0, ltext = str ''Hello world'',
            fmt = \<lparr>hasBold = False, hasItalic = False, hasUnderline = False, fontSize = [],
                   textAlign = []\<rparr>\<rparr>]
        \<lparr>iL = 0, iR = 0, cv1 = 1, cv2 = 1, rlines = []\<rparr>)
     = [\<lparr>v1 = str ''1'', v2 = str ''1'', lstatus = FORMATTING_ONLY,
         diffHtml = str ''Hello<span class=\"ws\">'' @ middleDot @ (str ''</span>world''),
         formatChanges = [str ''bold: on '' @ rightArrow @ str '' off'']\<rparr>]
   \<and> \<not> contains (str ''<span class=\"git-inline-added\">'')
         (str ''Hello<span class=\"ws\">'' @ middleDot @ str ''</span>world'')
   \<and> \<not> contains (str ''<span class=\"git-inline-removed\">'')
         (str ''Hello<span class=\"ws\">'' @ middleDot @ str ''</span>world'')
   \<and> reportLines
        \<lparr>domText = (\<lambda>h. Some h), dmp_diff_main = trimDiff, dmp_cleanupSemantic = (\<lambda>ds. ds),
         str_toLowerCase = asciiLower\<rparr>
        (\<lambda>eq a b. [\<lparr>acount = Some 1, avalue = a, aadded = False, aremoved = False\<rparr>])
        [\<lparr>lindex = 0, ltext = str ''Hello world'',
            fmt = \<lparr>hasBold = True, hasItalic = False, hasUnderline = False, fontSize = [],
                   textAlign = []\<rparr>\<rparr>]
        [\<lparr>lindex = 0, ltext = str ''Hello world'',
            fmt = \<lparr>hasBold = False, hasItalic = False, hasUnderline = False, fontSize = [],
                   textAlign = []\<rparr>\<rparr>]
     = [\<lparr>v1 = str ''1'', v2 = str ''1'', lstatus = FORMATTING_ONLY,
         diffHtml = str ''Hello<span class=\"ws\">'' @ middleDot @ (str ''</span>world''),
         formatChanges = [str ''bold: on '' @ rightArrow @ str '' off'']\<rparr>]"
proof -
  let ?l = "\<lparr>lindex = 0, ltext = str ''Hello world'',
            fmt = \<lparr>hasBold = True, hasItalic = False, hasUnderline = False, fontSize = [],
                   textAlign = []\<rparr>\<rparr>"
  let ?r = "\<lparr>lindex = 0, ltext = str ''Hello world'',
            fmt = \<lparr>hasBold = False, hasItalic = False, hasUnderline = False, fontSize = [],
                   textAlign = []\<rparr>\<rparr>"
  let ?st = "\<lparr>iL = 0, iR = 0, cv1 = 1, cv2 = 1, rlines = []\<rparr>"
  let ?ev = "\<lparr>domText = (\<lambda>h. Some h), dmp_diff_main = trimDiff, dmp_cleanupSemantic = (\<lambda>ds. ds),
         str_toLowerCase = asciiLower\<rparr>"
  let ?m = "str ''Hello<span class=\"ws\">'' @ middleDot @ str ''</span>world''"
  have h1: "nthOpt [?l] (iL ?st) = Some ?l" and h2: "nthOpt [?r] (iR ?st) = Some ?r"
    by (simp_all add: nthOpt_def)
  have t: "rlines (commonLine ?ev [?l] [?r] ?st) =
           rlines ?st @
             [\<lparr>v1 = showNat (cv1 ?st), v2 = showNat (cv2 ?st), lstatus = FORMATTING_ONLY,
               diffHtml = visibleSpaces (escapeHtml (ltext ?l)),
               formatChanges = [str ''bold: on '' @ rightArrow @ str '' off'']\<rparr>]
       \<and> \<not> contains (str ''<span class=\"git-inline-added\">'') (visibleSpaces (escapeHtml (ltext ?l)))
       \<and> \<not> contains (str ''<span class=\"git-inline-removed\">'') (visibleSpaces (escapeHtml (ltext ?l)))"
    by (rule bold_only_change_is_formatting_only [OF h1 h2]) simp_all
  have m: "visibleSpaces (escapeHtml (ltext ?l)) = ?m"
    by (simp add: visibleSpaces_def visibleChar_def escapeHtml_def escapeChar_def str_def)
  have n: "showNat (cv1 ?st) = str ''1''" "showNat (cv2 ?st) = str ''1''"
    by (simp_all add: str_def)
  have e: "rlines ?st @ [x] = [x]" for x
    by simp
  from t have "rlines (commonLine ?ev [?l] [?r] ?st) =
             [\<lparr>v1 = str ''1'', v2 = str ''1'', lstatus = FORMATTING_ONLY, diffHtml = ?m,
               formatChanges = [str ''bold: on '' @ rightArrow @ str '' off'']\<rparr>]
       \<and> \<not> contains (str ''<span class=\"git-inline-added\">'') ?m
       \<and> \<not> contains (str ''<span class=\"git-inline-removed\">'') ?m"
    unfolding m n e .
  moreover have "reportLines
        \<lparr>domText = (\<lambda>h. Some h), dmp_diff_main = trimDiff, dmp_cleanupSemantic = (\<lambda>ds. ds),
         str_toLowerCase = asciiLower\<rparr>
        (\<lambda>eq a b. [\<lparr>acount = Some 1, avalue = a, aadded = False, aremoved = False\<rparr>])
        [\<lparr>lindex = 0, ltext = str ''Hello world'',
            fmt = \<lparr>hasBold = True, hasItalic = False, hasUnderline = False, fontSize = [],
                   textAlign = []\<rparr>\<rparr>]
        [\<lparr>lindex = 0, ltext = str ''Hello world'',
            fmt = \<lparr>hasBold = False, hasItalic = False, hasUnderline = False, fontSize = [],
                   textAlign = []\<rparr>\<rparr>]
     = [\<lparr>v1 = str ''1'', v2 = str ''1'', lstatus = FORMATTING_ONLY,
         diffHtml = str ''Hello<span class=\"ws\">'' @ middleDot @ (str ''</span>world''),
         formatChanges = [str ''bold: on '' @ rightArrow @ str '' off'']\<rparr>]"
    by (simp add: reportLines_def reportPart_def partCount_def commonLine_def nthOpt_def
        areWordsEquivalent_def compareFormat_def onOff_def visibleSpaces_def
        visibleChar_def escapeHtml_def escapeChar_def str_def)
  ultimately show ?thesis using h1 by (intro conjI) (elim conjE, assumption)+
qed

section \<open>Blank lines of added and removed parts\<close>

lemma addedLine_blank:
  "nthOpt rightLines (iR st) = Some r \<Longrightarrow> trim (ltext r) = [] \<Longrightarrow>
   addedLine ev rightLines st = st\<lparr>iR := iR st + 1\<rparr>"
  by (simp add: addedLine_def Let_def)

lemma removedLine_blank:
  "nthOpt leftLines (iL st) = Some l \<Longrightarrow> trim (ltext l) = [] \<Longrightarrow>
   removedLine ev leftLines st = st\<lparr>iL := iL st + 1\<rparr>"
  by (simp add: removedLine_def Let_def)

lemma trim_blank_iff: "trim t = [] \<longleftrightarrow> list_all isWhiteSpace t"
proof -
  have "trim t = [] \<longleftrightarrow> (\<forall>x \<in> set (dropWhile isWhiteSpace t). isWhiteSpace x)"
    by (simp add: trim_def)
  also have "\<dots> \<longleftrightarrow> dropWhile isWhiteSpace t = []"
  proof
    assume a: "\<forall>x \<in> set (dropWhile isWhiteSpace t). isWhiteSpace x"
    show "dropWhile isWhiteSpace t = []"
    proof (cases "dropWhile isWhiteSpace t")
      case Nil
      then show ?thesis .
    next
      case (Cons c cs)
      then have "\<not> isWhiteSpace c" using hd_dropWhile [of isWhiteSpace t] by simp
      moreover have "isWhiteSpace c" using a Cons by simp
      ultimately show ?thesis by simp
    qed
  next
    assume d: "dropWhile isWhiteSpace t = []"
    show "\<forall>x \<in> set (dropWhile isWhiteSpace t). isWhiteSpace x"
      unfolding d by simp
  qed
  also have "\<dots> \<longleftrightarrow> list_all isWhiteSpace t"
    by (simp add: list_all_iff)
  finally show ?thesis .
qed

lemma take_drop_step:
  "i < length xs \<Longrightarrow> take (Suc n) (drop i xs) = xs ! i # take n (drop (Suc i) xs)"
  by (simp add: Cons_nth_drop_Suc [symmetric])

lemma addedLine_run:
  "iR st + n \<le> length rightLines \<Longrightarrow>
   ((addedLine ev rightLines) ^^ n) st =
     \<lparr>iL = iL st, iR = iR st + n, cv1 = cv1 st,
      cv2 = cv2 st + length (filter (\<lambda>r. trim (ltext r) \<noteq> []) (take n (drop (iR st) rightLines))),
      rlines = rlines st @
        map (\<lambda>p. \<lparr>v1 = [], v2 = showNat (fst p), lstatus = ADDED,
                  diffHtml = inlineDiffHtml ev [] (ltext (snd p)),
                  formatChanges = [str ''added line'']\<rparr>)
          (enumerate (cv2 st)
             (filter (\<lambda>r. trim (ltext r) \<noteq> []) (take n (drop (iR st) rightLines))))\<rparr>"
proof (induction n arbitrary: st)
  case 0
  then show ?case by simp
next
  case (Suc n)
  then have i: "iR st < length rightLines" by simp
  let ?r = "rightLines ! iR st"
  have td: "take (Suc n) (drop (iR st) rightLines) = ?r # take n (drop (Suc (iR st)) rightLines)"
    by (rule take_drop_step [OF i])
  have f: "((addedLine ev rightLines) ^^ Suc n) st
      = ((addedLine ev rightLines) ^^ n) (addedLine ev rightLines st)"
    by (simp add: funpow_swap1)
  show ?case
  proof (cases "trim (ltext ?r) = []")
    case True
    then have s: "addedLine ev rightLines st = st\<lparr>iR := iR st + 1\<rparr>"
      using i by (intro addedLine_blank) (simp_all add: nthOpt_def)
    have "iR (st\<lparr>iR := iR st + 1\<rparr>) + n \<le> length rightLines" using Suc.prems by simp
    from Suc.IH [OF this] show ?thesis
      unfolding f s td using True by (simp del: showNat.simps)
  next
    case False
    let ?st1 = "st\<lparr>iR := iR st + 1,
        rlines := rlines st @
           [\<lparr>v1 = [], v2 = showNat (cv2 st), lstatus = ADDED,
             diffHtml = inlineDiffHtml ev [] (ltext ?r), formatChanges = [str ''added line'']\<rparr>],
        cv2 := cv2 st + 1\<rparr>"
    have s: "addedLine ev rightLines st = ?st1"
      using i False by (simp add: addedLine_def Let_def nthOpt_def del: showNat.simps)
    have "iR ?st1 + n \<le> length rightLines" using Suc.prems by simp
    from Suc.IH [OF this] show ?thesis
      unfolding f s td using False by (simp del: showNat.simps)
  qed
qed

lemma removedLine_run:
  "iL st + n \<le> length leftLines \<Longrightarrow>
   ((removedLine ev leftLines) ^^ n) st =
     \<lparr>iL = iL st + n, iR = iR st,
      cv1 = cv1 st + length (filter (\<lambda>l. trim (ltext l) \<noteq> []) (take n (drop (iL st) leftLines))),
      cv2 = cv2 st,
      rlines = rlines st @
        map (\<lambda>p. \<lparr>v1 = showNat (fst p), v2 = [], lstatus = REMOVED,
                  diffHtml = inlineDiffHtml ev (ltext (snd p)) [],
                  formatChanges = [str ''removed line'']\<rparr>)
          (enumerate (cv1 st)
             (filter (\<lambda>l. trim (ltext l) \<noteq> []) (take n (drop (iL st) leftLines))))\<rparr>"
proof (induction n arbitrary: st)
  case 0
  then show ?case by simp
next
  case (Suc n)
  then have i: "iL st < length leftLines" by simp
  let ?l = "leftLines ! iL st"
  have td: "take (Suc n) (drop (iL st) leftLines) = ?l # take n (drop (Suc (iL st)) leftLines)"
    by (rule take_drop_step [OF i])
  have f: "((removedLine ev leftLines) ^^ Suc n) st
      = ((removedLine ev leftLines) ^^ n) (removedLine ev leftLines st)"
    by (simp add: funpow_swap1)
  show ?case
  proof (cases "trim (ltext ?l) = []")
    case True
    then have s: "removedLine ev leftLines st = st\<lparr>iL := iL st + 1\<rparr>"
      using i by (intro removedLine_blank) (simp_all add: nthOpt_def)
    have "iL (st\<lparr>iL := iL st + 1\<rparr>) + n \<le> length leftLines" using Suc.prems by simp
    from Suc.IH [OF this] show ?thesis
      unfolding f s td using True by (simp del: showNat.simps)
  next
    case False
    let ?st1 = "st\<lparr>iL := iL st + 1,
        rlines := rlines st @
           [\<lparr>v1 = showNat (cv1 st), v2 = [], lstatus = REMOVED,
             diffHtml = inlineDiffHtml ev (ltext ?l) [], formatChanges = [str ''removed line'']\<rparr>],
        cv1 := cv1 st + 1\<rparr>"
    have s: "removedLine ev leftLines st = ?st1"
      using i False by (simp add: removedLine_def Let_def nthOpt_def del: showNat.simps)
    have "iL ?st1 + n \<le> length leftLines" using Suc.prems by simp
    from Suc.IH [OF this] show ?thesis
      unfolding f s td using False by (simp del: showNat.simps)
  qed
qed

text \<open>
  C10. In the loops for an added and for a removed part, a line whose text is empty or
  white space only, that is, every code unit of it is white space or a line terminator of
  ECMAScript (the no-break space and the other Unicode spaces included), adds no report
  line and leaves both line counters as they are; only the read position moves on. Hence a run of \<open>n\<close> added (removed) lines yields one report
  line for each of its non-blank lines, numbered consecutively from the current right
  (left) counter, and advances that counter by the number of non-blank lines.
\<close>

theorem blank_lines_are_not_numbered:
  "(nthOpt rightLines (iR st) = Some r \<and> list_all isWhiteSpace (ltext r) \<longrightarrow>
      addedLine ev rightLines st = st\<lparr>iR := iR st + 1\<rparr>)
   \<and> (nthOpt leftLines (iL st) = Some l \<and> list_all isWhiteSpace (ltext l) \<longrightarrow>
      removedLine ev leftLines st = st\<lparr>iL := iL st + 1\<rparr>)
   \<and> (trim t = [] \<longleftrightarrow> list_all isWhiteSpace t)
   \<and> (iR st + n \<le> length rightLines \<longrightarrow>
      ((addedLine ev rightLines) ^^ n) st =
        \<lparr>iL = iL st, iR = iR st + n, cv1 = cv1 st,
         cv2 = cv2 st + length (filter (\<lambda>r. trim (ltext r) \<noteq> []) (take n (drop (iR st) rightLines))),
         rlines = rlines st @
           map (\<lambda>p. \<lparr>v1 = [], v2 = showNat (fst p), lstatus = ADDED,
                     diffHtml = inlineDiffHtml ev [] (ltext (snd p)),
                     formatChanges = [str ''added line'']\<rparr>)
             (enumerate (cv2 st)
                (filter (\<lambda>r. trim (ltext r) \<noteq> []) (take n (drop (iR st) rightLines))))\<rparr>)
   \<and> (iL st + n \<le> length leftLines \<longrightarrow>
      ((removedLine ev leftLines) ^^ n) st =
        \<lparr>iL = iL st + n, iR = iR st,
         cv1 = cv1 st + length (filter (\<lambda>l. trim (ltext l) \<noteq> []) (take n (drop (iL st) leftLines))),
         cv2 = cv2 st,
         rlines = rlines st @
           map (\<lambda>p. \<lparr>v1 = showNat (fst p), v2 = [], lstatus = REMOVED,
                     diffHtml = inlineDiffHtml ev (ltext (snd p)) [],
                     formatChanges = [str ''removed line'']\<rparr>)
             (enumerate (cv1 st)
                (filter (\<lambda>l. trim (ltext l) \<noteq> []) (take n (drop (iL st) leftLines))))\<rparr>)"
proof (intro conjI impI)
  assume "nthOpt rightLines (iR st) = Some r \<and> list_all isWhiteSpace (ltext r)"
  then show "addedLine ev rightLines st = st\<lparr>iR := iR st + 1\<rparr>"
    using addedLine_blank [of rightLines st r ev] by (simp add: trim_blank_iff)
next
  assume "nthOpt leftLines (iL st) = Some l \<and> list_all isWhiteSpace (ltext l)"
  then show "removedLine ev leftLines st = st\<lparr>iL := iL st + 1\<rparr>"
    using removedLine_blank [of leftLines st l ev] by (simp add: trim_blank_iff)
next
  show "trim t = [] \<longleftrightarrow> list_all isWhiteSpace t"
    by (rule trim_blank_iff)
next
  assume "iR st + n \<le> length rightLines"
  then show "((addedLine ev rightLines) ^^ n) st =
        \<lparr>iL = iL st, iR = iR st + n, cv1 = cv1 st,
         cv2 = cv2 st + length (filter (\<lambda>r. trim (ltext r) \<noteq> []) (take n (drop (iR st) rightLines))),
         rlines = rlines st @
           map (\<lambda>p. \<lparr>v1 = [], v2 = showNat (fst p), lstatus = ADDED,
                     diffHtml = inlineDiffHtml ev [] (ltext (snd p)),
                     formatChanges = [str ''added line'']\<rparr>)
             (enumerate (cv2 st)
                (filter (\<lambda>r. trim (ltext r) \<noteq> []) (take n (drop (iR st) rightLines))))\<rparr>"
    by (rule addedLine_run)
next
  assume "iL st + n \<le> length leftLines"
  then show "((removedLine ev leftLines) ^^ n) st =
        \<lparr>iL = iL st + n, iR = iR st,
         cv1 = cv1 st + length (filter (\<lambda>l. trim (ltext l) \<noteq> []) (take n (drop (iL st) leftLines))),
         cv2 = cv2 st,
         rlines = rlines st @
           map (\<lambda>p. \<lparr>v1 = showNat (fst p), v2 = [], lstatus = REMOVED,
                     diffHtml = inlineDiffHtml ev (ltext (snd p)) [],
                     formatChanges = [str ''removed line'']\<rparr>)
             (enumerate (cv1 st)
                (filter (\<lambda>l. trim (ltext l) \<noteq> []) (take n (drop (iL st) leftLines))))\<rparr>"
    by (rule removedLine_run)
qed

theorem blank_lines_are_not_numbered_witness:
  "nthOpt
      [\<lparr>lindex = 0, ltext = str ''a'', fmt = \<lparr>hasBold = False, hasItalic = False, hasUnderline = False, fontSize = [], textAlign = []\<rparr>\<rparr>, \<lparr>lindex = 1, ltext = [160, 32], fmt = \<lparr>hasBold = False, hasItalic = False, hasUnderline = False, fontSize = [], textAlign = []\<rparr>\<rparr>,
       \<lparr>lindex = 2, ltext = str ''b'', fmt = \<lparr>hasBold = False, hasItalic = False, hasUnderline = False, fontSize = [], textAlign = []\<rparr>\<rparr>]
      (iR \<lparr>iL = 0, iR = 1, cv1 = 1, cv2 = 2, rlines = []\<rparr>)
     = Some \<lparr>lindex = 1, ltext = [160, 32], fmt = \<lparr>hasBold = False, hasItalic = False, hasUnderline = False, fontSize = [], textAlign = []\<rparr>\<rparr>
   \<and> list_all isWhiteSpace (ltext \<lparr>lindex = 1, ltext = [160, 32], fmt = \<lparr>hasBold = False, hasItalic = False, hasUnderline = False, fontSize = [], textAlign = []\<rparr>\<rparr>)
   \<and> addedLine \<lparr>domText = (\<lambda>h. Some h), dmp_diff_main = trimDiff, dmp_cleanupSemantic = (\<lambda>ds. ds),
         str_toLowerCase = asciiLower\<rparr>
        [\<lparr>lindex = 0, ltext = str ''a'', fmt = \<lparr>hasBold = False, hasItalic = False, hasUnderline = False, fontSize = [], textAlign = []\<rparr>\<rparr>, \<lparr>lindex = 1, ltext = [160, 32], fmt = \<lparr>hasBold = False, hasItalic = False, hasUnderline = False, fontSize = [], textAlign = []\<rparr>\<rparr>,
         \<lparr>lindex = 2, ltext = str ''b'', fmt = \<lparr>hasBold = False, hasItalic = False, hasUnderline = False, fontSize = [], textAlign = []\<rparr>\<rparr>]
        \<lparr>iL = 0, iR = 1, cv1 = 1, cv2 = 2, rlines = []\<rparr>
     = \<lparr>iL = 0, iR = 2, cv1 = 1, cv2 = 2, rlines = []\<rparr>
   \<and> map v2 (rlines (((addedLine \<lparr>domText = (\<lambda>h. Some h), dmp_diff_main = trimDiff, dmp_cleanupSemantic = (\<lambda>ds. ds),
         str_toLowerCase = asciiLower\<rparr>
        [\<lparr>lindex = 0, ltext = str ''a'', fmt = \<lparr>hasBold = False, hasItalic = False, hasUnderline = False, fontSize = [], textAlign = []\<rparr>\<rparr>, \<lparr>lindex = 1, ltext = [160, 32], fmt = \<lparr>hasBold = False, hasItalic = False, hasUnderline = False, fontSize = [], textAlign = []\<rparr>\<rparr>,
         \<lparr>lindex = 2, ltext = str ''b'', fmt = \<lparr>hasBold = False, hasItalic = False, hasUnderline = False, fontSize = [], textAlign = []\<rparr>\<rparr>]) ^^ 3)
        \<lparr>iL = 0, iR = 0, cv1 = 1, cv2 = 1, rlines = []\<rparr>)) = [str ''1'', str ''2'']
   \<and> cv2 (((addedLine \<lparr>domText = (\<lambda>h. Some h), dmp_diff_main = trimDiff, dmp_cleanupSemantic = (\<lambda>ds. ds),
         str_toLowerCase = asciiLower\<rparr>
        [\<lparr>lindex = 0, ltext = str ''a'', fmt = \<lparr>hasBold = False, hasItalic = False, hasUnderline = False, fontSize = [], textAlign = []\<rparr>\<rparr>, \<lparr>lindex = 1, ltext = [160, 32], fmt = \<lparr>hasBold = False, hasItalic = False, hasUnderline = False, fontSize = [], textAlign = []\<rparr>\<rparr>,
         \<lparr>lindex = 2, ltext = str ''b'', fmt = \<lparr>hasBold = False, hasItalic = False, hasUnderline = False, fontSize = [], textAlign = []\<rparr>\<rparr>]) ^^ 3)
        \<lparr>iL = 0, iR = 0, cv1 = 1, cv2 = 1, rlines = []\<rparr>) = 3
   \<and> map v2 (reportLines
        \<lparr>domText = (\<lambda>h. Some h), dmp_diff_main = trimDiff, dmp_cleanupSemantic = (\<lambda>ds. ds),
         str_toLowerCase = asciiLower\<rparr>
        (\<lambda>eq a b. [\<lparr>acount = Some 3, avalue = b, aadded = True, aremoved = False\<rparr>])
        []
        [\<lparr>lindex = 0, ltext = str ''a'', fmt = \<lparr>hasBold = False, hasItalic = False, hasUnderline = False, fontSize = [], textAlign = []\<rparr>\<rparr>,
         \<lparr>lindex = 1, ltext = [160, 32], fmt = \<lparr>hasBold = False, hasItalic = False, hasUnderline = False, fontSize = [], textAlign = []\<rparr>\<rparr>,
         \<lparr>lindex = 2, ltext = str ''b'', fmt = \<lparr>hasBold = False, hasItalic = False, hasUnderline = False, fontSize = [], textAlign = []\<rparr>\<rparr>])
     = [str ''1'', str ''2'']"
proof -
  let ?ev = "\<lparr>domText = (\<lambda>h. Some h), dmp_diff_main = trimDiff, dmp_cleanupSemantic = (\<lambda>ds. ds),
         str_toLowerCase = asciiLower\<rparr>"
  let ?R = "[\<lparr>lindex = 0, ltext = str ''a'', fmt = \<lparr>hasBold = False, hasItalic = False, hasUnderline = False, fontSize = [], textAlign = []\<rparr>\<rparr>, \<lparr>lindex = 1, ltext = [160, 32], fmt = \<lparr>hasBold = False, hasItalic = False, hasUnderline = False, fontSize = [], textAlign = []\<rparr>\<rparr>,
       \<lparr>lindex = 2, ltext = str ''b'', fmt = \<lparr>hasBold = False, hasItalic = False, hasUnderline = False, fontSize = [], textAlign = []\<rparr>\<rparr>]"
  let ?b = "\<lparr>lindex = 1, ltext = [160, 32], fmt = \<lparr>hasBold = False, hasItalic = False, hasUnderline = False, fontSize = [], textAlign = []\<rparr>\<rparr>"
  let ?st1 = "\<lparr>iL = 0, iR = 1, cv1 = 1, cv2 = 2, rlines = []\<rparr>"
  let ?st0 = "\<lparr>iL = 0, iR = 0, cv1 = 1, cv2 = 1, rlines = []\<rparr>"
  have h1: "nthOpt ?R (iR ?st1) = Some ?b"
    by (simp add: nthOpt_def)
  have h2: "list_all isWhiteSpace (ltext ?b)"
    by (simp add: isWhiteSpace_def)
  have "addedLine ?ev ?R ?st1 = ?st1\<lparr>iR := iR ?st1 + 1\<rparr>"
    by (rule blank_lines_are_not_numbered [of ?R ?st1 ?b ?ev, THEN conjunct1, THEN mp,
          OF conjI [OF h1 h2]])
  then have a: "addedLine ?ev ?R ?st1 = \<lparr>iL = 0, iR = 2, cv1 = 1, cv2 = 2, rlines = []\<rparr>"
    by simp
  have nb: "filter (\<lambda>r. trim (ltext r) \<noteq> []) (take 3 (drop (iR ?st0) ?R))
      = [\<lparr>lindex = 0, ltext = str ''a'', fmt = \<lparr>hasBold = False, hasItalic = False, hasUnderline = False, fontSize = [], textAlign = []\<rparr>\<rparr>, \<lparr>lindex = 2, ltext = str ''b'', fmt = \<lparr>hasBold = False, hasItalic = False, hasUnderline = False, fontSize = [], textAlign = []\<rparr>\<rparr>]"
    by (simp add: trim_def isWhiteSpace_def str_def)
  have h3: "iR ?st0 + 3 \<le> length ?R" by simp
  have run: "((addedLine ?ev ?R) ^^ 3) ?st0 =
        \<lparr>iL = iL ?st0, iR = iR ?st0 + 3, cv1 = cv1 ?st0,
         cv2 = cv2 ?st0 + length (filter (\<lambda>r. trim (ltext r) \<noteq> []) (take 3 (drop (iR ?st0) ?R))),
         rlines = rlines ?st0 @
           map (\<lambda>p. \<lparr>v1 = [], v2 = showNat (fst p), lstatus = ADDED,
                     diffHtml = inlineDiffHtml ?ev [] (ltext (snd p)),
                     formatChanges = [str ''added line'']\<rparr>)
             (enumerate (cv2 ?st0)
                (filter (\<lambda>r. trim (ltext r) \<noteq> []) (take 3 (drop (iR ?st0) ?R))))\<rparr>"
    by (rule blank_lines_are_not_numbered [of ?R ?st0 _ ?ev _ _ _ 3, THEN conjunct2,
          THEN conjunct2, THEN conjunct2, THEN conjunct1, THEN mp, OF h3])
  have n: "showNat (Suc 0) = str ''1''" "showNat (Suc (Suc 0)) = str ''2''"
    by (simp_all add: str_def)
  have b: "map v2 (rlines (((addedLine ?ev ?R) ^^ 3) ?st0)) = [str ''1'', str ''2'']"
    unfolding run nb using n by (simp del: showNat.simps)
  have c: "cv2 (((addedLine ?ev ?R) ^^ 3) ?st0) = 3"
    unfolding run nb by simp
  have d: "map v2 (reportLines
        \<lparr>domText = (\<lambda>h. Some h), dmp_diff_main = trimDiff, dmp_cleanupSemantic = (\<lambda>ds. ds),
         str_toLowerCase = asciiLower\<rparr>
        (\<lambda>eq a b. [\<lparr>acount = Some 3, avalue = b, aadded = True, aremoved = False\<rparr>])
        []
        [\<lparr>lindex = 0, ltext = str ''a'', fmt = \<lparr>hasBold = False, hasItalic = False, hasUnderline = False, fontSize = [], textAlign = []\<rparr>\<rparr>,
         \<lparr>lindex = 1, ltext = [160, 32], fmt = \<lparr>hasBold = False, hasItalic = False, hasUnderline = False, fontSize = [], textAlign = []\<rparr>\<rparr>,
         \<lparr>lindex = 2, ltext = str ''b'', fmt = \<lparr>hasBold = False, hasItalic = False, hasUnderline = False, fontSize = [], textAlign = []\<rparr>\<rparr>])
     = [str ''1'', str ''2'']"
    by (simp add: reportLines_def reportPart_def partCount_def addedLine_def nthOpt_def
        numeral_3_eq_3 trim_def isWhiteSpace_def str_def)
  show ?thesis
    by (intro conjI h1 h2 a b c d)
qed

end
